theory Spec2Isabelle
  imports Complex_Main "HOL-Library.Sublist"
begin

section \<open>Local-mode overrides of the chat extension\<close>

text \<open>
  The development embeds the local-mode classes of the extension: the fake
  authentication provider and service, the null quota, CAPI and automode
  services, the endpoint provider and the local endpoint with its response
  adapter. A class is a record of its fields and a constructor function; a
  method takes the object and returns its result together with whatever the
  method changes. A promise is the value it settles to: \<open>Inr v\<close> when it
  resolves to \<open>v\<close>, \<open>Inl e\<close> when it rejects with \<open>e\<close> (a \<open>throw\<close> inside an
  async method). Record fields carry a short prefix of their class, since the
  classes share field names (\<open>model\<close>, \<open>name\<close>, \<open>id\<close>).
\<close>

subsection \<open>Errors and JavaScript values\<close>

text \<open>
  \<open>Error m\<close> is \<open>new Error(m)\<close>; \<open>TypeError\<close> and \<open>SyntaxError\<close> are the errors
  the language itself throws (a property read on \<open>undefined\<close> or \<open>null\<close>, a value
  that cannot be iterated, \<open>JSON.parse\<close> on a text that is not JSON).
  \<open>Rejected m\<close> is an error raised by a host service or by the caller's
  callback. \<open>Unmodelled\<close> is no error of the program: it marks the input
  shapes this embedding does not follow (see \<open>choicesOf\<close>).
\<close>

datatype error = Error string | TypeError | SyntaxError | Rejected string | Unmodelled

text \<open>
  What \<open>JSON.parse\<close> returns. A value that may also be \<open>undefined\<close> (the read
  of a missing property) is a \<open>json option\<close>, with \<open>None\<close> for \<open>undefined\<close>.
  An object is the list of its members, each key once. Numbers are kept as
  rationals: this code hands them on and never calculates with them.
\<close>

datatype json =
    JNull
  | JBool bool
  | JNum rat
  | JStr string
  | JArr "json list"
  | JObj "(string \<times> json) list"

type_synonym jsvalue = "json option"

text \<open>
  \<open>readMember v k\<close> is the property read \<open>v.k\<close> on a value that is neither
  \<open>null\<close> nor \<open>undefined\<close>. An object yields its own member; an array and a
  string have \<open>length\<close>; no other key read by this code exists on an array,
  a string, a number or a boolean.
\<close>

fun readMember :: "json \<Rightarrow> string \<Rightarrow> jsvalue" where
  "readMember (JObj kvs) k = map_of kvs k"
| "readMember (JArr xs) k = (if k = ''length'' then Some (JNum (of_nat (length xs))) else None)"
| "readMember (JStr s) k = (if k = ''length'' then Some (JNum (of_nat (length s))) else None)"
| "readMember _ k = None"

text \<open>\<open>readProp v k\<close> is \<open>v.k\<close>: a TypeError on \<open>undefined\<close> and on \<open>null\<close>.\<close>

fun readProp :: "jsvalue \<Rightarrow> string \<Rightarrow> error + jsvalue" where
  "readProp None k = Inl TypeError"
| "readProp (Some JNull) k = Inl TypeError"
| "readProp (Some v) k = Inr (readMember v k)"

text \<open>\<open>readOptional v k\<close> is \<open>v?.k\<close>: \<open>undefined\<close> on \<open>undefined\<close> and on \<open>null\<close>.\<close>

fun readOptional :: "jsvalue \<Rightarrow> string \<Rightarrow> jsvalue" where
  "readOptional None k = None"
| "readOptional (Some JNull) k = None"
| "readOptional (Some v) k = readMember v k"

text \<open>\<open>nullish a b\<close> is \<open>a ?? b\<close>.\<close>

fun nullish :: "jsvalue \<Rightarrow> jsvalue \<Rightarrow> jsvalue" where
  "nullish None b = b"
| "nullish (Some JNull) b = b"
| "nullish (Some v) b = Some v"

text \<open>\<open>orEmpty a\<close> is \<open>a ?? ''\<close>.\<close>

fun orEmpty :: "jsvalue \<Rightarrow> json" where
  "orEmpty None = JStr ''''"
| "orEmpty (Some JNull) = JStr ''''"
| "orEmpty (Some v) = v"

text \<open>
  \<open>decimal n\<close> is the text JavaScript gives for the whole number \<open>n\<close>, in a
  template literal (as for \<open>response.status\<close>) and as the key of the \<open>n\<close>-th
  element.
\<close>

definition digit :: "nat \<Rightarrow> char" where
  "digit d = ''0123456789'' ! d"

function decimal :: "nat \<Rightarrow> string" where
  "decimal n = (if n < 10 then [digit n] else decimal (n div 10) @ [digit (n mod 10)])"
  by pat_completeness auto
termination
  by (relation "measure id") auto

declare decimal.simps [simp del]

subsection \<open>Fake authentication provider and null authentication service\<close>

record AuthenticationSessionAccountInformation =
  acc_id :: string
  acc_label :: string

record AuthenticationSession =
  sess_id :: string
  sess_accessToken :: string
  sess_account :: AuthenticationSessionAccountInformation
  sess_scopes :: "string list"

text \<open>
  \<open>FakeGitHubAuthenticationProvider\<close>: the private field \<open>_session\<close> and the
  events fired on \<open>_onDidChangeSessions\<close>, which is the only thing a method of
  the class changes.
\<close>

record AuthenticationProviderAuthenticationSessionsChangeEvent =
  ev_added :: "AuthenticationSession list"
  ev_removed :: "AuthenticationSession list"
  ev_changed :: "AuthenticationSession list"

record FakeGitHubAuthenticationProvider =
  fgh_session :: AuthenticationSession
  fgh_fired :: "AuthenticationProviderAuthenticationSessionsChangeEvent list"

definition SESSION_ID :: string where
  "SESSION_ID = ''fake-github-session''"

definition new_FakeGitHubAuthenticationProvider :: FakeGitHubAuthenticationProvider where
  "new_FakeGitHubAuthenticationProvider =
     \<lparr> fgh_session =
         \<lparr> sess_id = SESSION_ID,
           sess_accessToken = ''fake-github-access-token-for-local-llm'',
           sess_account = \<lparr> acc_id = ''local-user'', acc_label = ''Local LLM User'' \<rparr>,
           sess_scopes = [''user:email'', ''read:user'', ''repo'', ''workflow''] \<rparr>,
       fgh_fired = [] \<rparr>"

definition getSessions ::
  "FakeGitHubAuthenticationProvider \<Rightarrow> string list option \<Rightarrow> error + AuthenticationSession list" where
  "getSessions this scopes = Inr [fgh_session this]"

definition createSession ::
  "FakeGitHubAuthenticationProvider \<Rightarrow> string list \<Rightarrow> error + AuthenticationSession" where
  "createSession this scopes = Inr (fgh_session this)"

definition removeSession ::
  "FakeGitHubAuthenticationProvider \<Rightarrow> string \<Rightarrow> FakeGitHubAuthenticationProvider \<times> (error + unit)" where
  "removeSession this sessionId = (this, Inr ())"

definition emitSessionChange ::
  "FakeGitHubAuthenticationProvider \<Rightarrow> FakeGitHubAuthenticationProvider" where
  "emitSessionChange this =
     this \<lparr> fgh_fired := fgh_fired this @
       [\<lparr> ev_added = [fgh_session this], ev_removed = [], ev_changed = [] \<rparr>] \<rparr>"

text \<open>
  \<open>NullAuthenticationService\<close>: the field \<open>_fakeSession\<close>. The cached
  \<open>_copilotToken\<close> is read and written by the token methods only and is left
  out; \<open>getGitHubSession\<close> does not touch it.
\<close>

datatype session_kind = Permissive | Any

record AuthenticationGetSessionOptions =
  gso_createIfNone :: "bool option"
  gso_forceNewSession :: "bool option"
  gso_silent :: "bool option"

record NullAuthenticationService =
  nas_fakeSession :: AuthenticationSession

definition new_NullAuthenticationService :: NullAuthenticationService where
  "new_NullAuthenticationService =
     \<lparr> nas_fakeSession =
         \<lparr> sess_id = ''local-session'',
           sess_accessToken = ''local-access-token'',
           sess_account = \<lparr> acc_id = ''local-user'', acc_label = ''Local User'' \<rparr>,
           sess_scopes = [''user:email'', ''read:user'', ''repo'', ''workflow''] \<rparr> \<rparr>"

definition getGitHubSession ::
  "NullAuthenticationService \<Rightarrow> session_kind \<Rightarrow> AuthenticationGetSessionOptions
     \<Rightarrow> error + AuthenticationSession" where
  "getGitHubSession this kind opts = Inr (nas_fakeSession this)"

subsection \<open>Null quota service\<close>

text \<open>
  \<open>NullChatQuotaService\<close> declares the brand field and nothing else. The two
  getters read the object, the two methods return it as they leave it.
\<close>

record NullChatQuotaService =
  ncq_serviceBrand :: unit

definition quotaExhausted :: "NullChatQuotaService \<Rightarrow> bool" where
  "quotaExhausted this = False"

definition overagesEnabled :: "NullChatQuotaService \<Rightarrow> bool" where
  "overagesEnabled this = True"

definition processQuotaHeaders ::
  "NullChatQuotaService \<Rightarrow> (string \<Rightarrow> string option) \<Rightarrow> NullChatQuotaService" where
  "processQuotaHeaders this hdrs = this"

definition clearQuota :: "NullChatQuotaService \<Rightarrow> NullChatQuotaService" where
  "clearQuota this = this"

text \<open>A call of the service from outside, and a sequence of calls run in order.\<close>

datatype quota_call =
    ReadQuotaExhausted
  | ReadOveragesEnabled
  | ProcessQuotaHeaders "string \<Rightarrow> string option"
  | ClearQuota

fun quota_step :: "NullChatQuotaService \<Rightarrow> quota_call \<Rightarrow> NullChatQuotaService" where
  "quota_step this ReadQuotaExhausted = this"
| "quota_step this ReadOveragesEnabled = this"
| "quota_step this (ProcessQuotaHeaders h) = processQuotaHeaders this h"
| "quota_step this ClearQuota = clearQuota this"

definition quota_run :: "NullChatQuotaService \<Rightarrow> quota_call list \<Rightarrow> NullChatQuotaService" where
  "quota_run this calls = foldl quota_step this calls"

subsection \<open>Null CAPI client\<close>

record NullCAPIClientImpl =
  capi_abExpContext :: "string option"

definition proxyBaseURL :: "NullCAPIClientImpl \<Rightarrow> string" where
  "proxyBaseURL this = ''http://127.0.0.1:8777''"

definition capiPingURL :: "NullCAPIClientImpl \<Rightarrow> string" where
  "capiPingURL this = ''http://127.0.0.1:8777/health''"

text \<open>
  \<open>makeRequest\<close> returns \<open>Promise.reject(new Error(...))\<close>. The second component
  is the list of requests sent to a remote service: the method has no fetcher
  to send one with.
\<close>

definition makeRequest ::
  "NullCAPIClientImpl \<Rightarrow> 'req \<Rightarrow> 'meta \<Rightarrow> (error + 'a) \<times> 'req list" where
  "makeRequest this request requestMetadata =
     (Inl (Error ''CAPI not available in local mode''), [])"

subsection \<open>Null automode service\<close>

text \<open>
  \<open>AutoChatEndpoint\<close> belongs to the host; \<open>createInstance\<close> builds it from the
  four arguments given here, which the record keeps as they are passed.
\<close>

record DiscountRange =
  dr_low :: rat
  dr_high :: rat

record 'e AutoChatEndpoint =
  ace_wrappedEndpoint :: 'e
  ace_sessionToken :: string
  ace_discountPercent :: rat
  ace_discountRange :: DiscountRange

fun resolveAutoModeEndpoint :: "'req option \<Rightarrow> 'e list \<Rightarrow> error + 'e AutoChatEndpoint" where
  "resolveAutoModeEndpoint chatRequest [] = Inl (Error ''No endpoints provided for auto mode.'')"
| "resolveAutoModeEndpoint chatRequest (selectedEndpoint # _) =
     Inr \<lparr> ace_wrappedEndpoint = selectedEndpoint,
           ace_sessionToken = ''local-session-token'',
           ace_discountPercent = 0,
           ace_discountRange = \<lparr> dr_low = 0, dr_high = 0 \<rparr> \<rparr>"

subsection \<open>Model metadata and the local endpoint\<close>

type_synonym number = rat

datatype TokenizerType = CL100K | O200K

record Limits =
  lim_max_prompt_tokens :: "number option"
  lim_max_output_tokens :: "number option"
  lim_max_context_window_tokens :: "number option"

record Supports =
  sup_parallel_tool_calls :: "bool option"
  sup_tool_calls :: "bool option"
  sup_streaming :: "bool option"
  sup_vision :: "bool option"
  sup_prediction :: "bool option"
  sup_thinking :: "bool option"

record Capabilities =
  cap_type :: string
  cap_family :: string
  cap_tokenizer :: TokenizerType
  cap_limits :: "Limits option"
  cap_supports :: Supports

record IChatModelInformation =
  mi_id :: string
  mi_name :: string
  mi_version :: string
  mi_model_picker_enabled :: bool
  mi_is_chat_default :: bool
  mi_is_chat_fallback :: bool
  mi_capabilities :: Capabilities

definition createLocalModelMetadata :: IChatModelInformation where
  "createLocalModelMetadata =
     \<lparr> mi_id = ''local-llm'',
       mi_name = ''Local LLM'',
       mi_version = ''1.0.0'',
       mi_model_picker_enabled = True,
       mi_is_chat_default = True,
       mi_is_chat_fallback = True,
       mi_capabilities =
         \<lparr> cap_type = ''chat'',
           cap_family = ''local'',
           cap_tokenizer = O200K,
           cap_limits = Some
             \<lparr> lim_max_prompt_tokens = Some 128000,
               lim_max_output_tokens = Some 16384,
               lim_max_context_window_tokens = Some 128000 \<rparr>,
           cap_supports =
             \<lparr> sup_parallel_tool_calls = Some True,
               sup_tool_calls = Some True,
               sup_streaming = Some True,
               sup_vision = Some True,
               sup_prediction = Some False,
               sup_thinking = Some False \<rparr> \<rparr> \<rparr>"

text \<open>
  The fields of \<open>LocalLlmEndpoint\<close>. The four services the constructor stores
  (\<open>_fetcherService\<close>, \<open>_telemetryService\<close>, \<open>_tokenizerProvider\<close>,
  \<open>_logService\<close>) are references to the host, which the methods below take as
  the \<open>host\<close> argument; \<open>isPremium\<close>, \<open>multiplier\<close>, \<open>restrictedToSkus\<close> and
  \<open>customModel\<close> are never assigned.
\<close>

record LocalLlmEndpoint =
  ep_model :: string
  ep_name :: string
  ep_version :: string
  ep_family :: string
  ep_tokenizer :: TokenizerType
  ep_showInModelPicker :: bool
  ep_isDefault :: bool
  ep_isFallback :: bool
  ep_supportsToolCalls :: bool
  ep_supportsVision :: bool
  ep_supportsPrediction :: bool
  ep_modelMetadata :: IChatModelInformation
  ep_serverUrl :: string
  ep_maxTokens :: number
  ep_maxOutputTokens :: number

text \<open>\<open>truthy b\<close> is \<open>!!b\<close> on a \<open>boolean | undefined\<close>.\<close>

fun truthy :: "bool option \<Rightarrow> bool" where
  "truthy None = False"
| "truthy (Some b) = b"

definition new_LocalLlmEndpoint :: "IChatModelInformation \<Rightarrow> string \<Rightarrow> LocalLlmEndpoint" where
  "new_LocalLlmEndpoint modelMetadata serverUrl =
     \<lparr> ep_model = mi_id modelMetadata,
       ep_name = mi_name modelMetadata,
       ep_version = mi_version modelMetadata,
       ep_family = cap_family (mi_capabilities modelMetadata),
       ep_tokenizer = cap_tokenizer (mi_capabilities modelMetadata),
       ep_showInModelPicker = mi_model_picker_enabled modelMetadata,
       ep_isDefault = mi_is_chat_default modelMetadata,
       ep_isFallback = mi_is_chat_fallback modelMetadata,
       ep_supportsToolCalls = truthy (sup_tool_calls (cap_supports (mi_capabilities modelMetadata))),
       ep_supportsVision = truthy (sup_vision (cap_supports (mi_capabilities modelMetadata))),
       ep_supportsPrediction = truthy (sup_prediction (cap_supports (mi_capabilities modelMetadata))),
       ep_modelMetadata = modelMetadata,
       ep_serverUrl = serverUrl,
       ep_maxTokens =
         (case cap_limits (mi_capabilities modelMetadata) of
            None \<Rightarrow> 128000
          | Some l \<Rightarrow> (case lim_max_prompt_tokens l of None \<Rightarrow> 128000 | Some n \<Rightarrow> n)),
       ep_maxOutputTokens =
         (case cap_limits (mi_capabilities modelMetadata) of
            None \<Rightarrow> 16384
          | Some l \<Rightarrow> (case lim_max_output_tokens l of None \<Rightarrow> 16384 | Some n \<Rightarrow> n)) \<rparr>"

definition getExtraHeaders :: "LocalLlmEndpoint \<Rightarrow> (string \<times> string) list" where
  "getExtraHeaders this = [(''Content-Type'', ''application/json'')]"

definition urlOrRequestMetadata :: "LocalLlmEndpoint \<Rightarrow> string" where
  "urlOrRequestMetadata this = ep_serverUrl this @ ''/v1/chat/completions''"

subsection \<open>The request body\<close>

text \<open>
  A chat message is the list of its members in order. \<open>IEndpointBody\<close> has the
  members the endpoint writes and the three Copilot members it deletes;
  \<open>None\<close> is a member that is not there.
\<close>

type_synonym CAPIChatMessage = "(string \<times> json) list"

record IEndpointBody =
  body_model :: "string option"
  body_stream :: "bool option"
  body_max_tokens :: "number option"
  body_temperature :: "number option"
  body_top_p :: "number option"
  body_tools :: "json list option"
  body_messages :: "CAPIChatMessage list option"
  body_snippy :: jsvalue
  body_copilot_thread_id :: jsvalue
  body_copilot_skills :: jsvalue

record ICreateEndpointBodyOptions =
  cbo_messages :: "CAPIChatMessage list option"
  cbo_maxOutputTokens :: "number option"
  cbo_temperature :: "number option"
  cbo_topP :: "number option"
  cbo_tools :: "json list option"

text \<open>\<open>deleteKey k msg\<close> is \<open>delete msg[k]\<close>.\<close>

definition deleteKey :: "string \<Rightarrow> (string \<times> json) list \<Rightarrow> (string \<times> json) list" where
  "deleteKey k kvs = filter (\<lambda>kv. fst kv \<noteq> k) kvs"

definition cleanMessage :: "CAPIChatMessage \<Rightarrow> CAPIChatMessage" where
  "cleanMessage msg =
     deleteKey ''copilot_cache_control''
       (deleteKey ''copilot_confirmations''
         (deleteKey ''copilot_references'' msg))"

text \<open>
  \<open>interceptBody\<close> changes the object it is given in place; the result is
  that object after the call (\<open>None\<close> for the call on \<open>undefined\<close>, which
  returns at the guard).
\<close>

fun interceptBody :: "LocalLlmEndpoint \<Rightarrow> IEndpointBody option \<Rightarrow> IEndpointBody option" where
  "interceptBody this None = None"
| "interceptBody this (Some body) =
     (let body = body \<lparr> body_snippy := None \<rparr>;
          body = body \<lparr> body_copilot_thread_id := None \<rparr>;
          body = body \<lparr> body_copilot_skills := None \<rparr>;
          body = (case body_messages body of
                    None \<Rightarrow> body
                  | Some msgs \<Rightarrow> body \<lparr> body_messages := Some (map cleanMessage msgs) \<rparr>);
          body = (if \<not> ep_supportsToolCalls this then body \<lparr> body_tools := None \<rparr> else body)
      in Some body)"

definition createRequestBody :: "LocalLlmEndpoint \<Rightarrow> ICreateEndpointBodyOptions \<Rightarrow> IEndpointBody" where
  "createRequestBody this options =
     (let body = \<lparr> body_model = Some (ep_model this),
                    body_stream = Some True,
                    body_max_tokens = Some (case cbo_maxOutputTokens options of
                                              None \<Rightarrow> ep_maxOutputTokens this
                                            | Some n \<Rightarrow> n),
                    body_temperature = None,
                    body_top_p = None,
                    body_tools = None,
                    body_messages = None,
                    body_snippy = None,
                    body_copilot_thread_id = None,
                    body_copilot_skills = None \<rparr>;
          body = (case cbo_temperature options of
                    None \<Rightarrow> body
                  | Some t \<Rightarrow> body \<lparr> body_temperature := Some t \<rparr>);
          body = (case cbo_topP options of
                    None \<Rightarrow> body
                  | Some p \<Rightarrow> body \<lparr> body_top_p := Some p \<rparr>);
          body = (case cbo_tools options of
                    None \<Rightarrow> body
                  | Some ts \<Rightarrow> body \<lparr> body_tools := Some ts \<rparr>);
          body = (case cbo_messages options of
                    None \<Rightarrow> body
                  | Some ms \<Rightarrow> body \<lparr> body_messages := Some ms \<rparr>)
      in body)"

subsection \<open>Responses, completions and the host\<close>

text \<open>
  A response of the fetcher. \<open>resp_headers_get\<close> is \<open>headers.get\<close> (\<open>None\<close> for
  \<open>null\<close>). \<open>resp_parsed\<close> is what \<open>JSON.parse(await response.text())\<close>
  evaluates to: the parsed value, or \<open>Inl SyntaxError\<close> when the text is not
  JSON.
\<close>

record Response =
  resp_ok :: bool
  resp_status :: nat
  resp_statusText :: string
  resp_headers_get :: "string \<Rightarrow> string option"
  resp_parsed :: "error + json"

record FetchOptions =
  fo_method :: string
  fo_headers :: "(string \<times> string) list"
  fo_body :: string

record RequestId =
  rid_headerRequestId :: string
  rid_gitHubRequestId :: string
  rid_completionId :: jsvalue
  rid_created :: jsvalue
  rid_deploymentId :: string
  rid_serverExperiments :: string

record TelemetryData =
  td_properties :: "(string \<times> string) list"
  td_measurements :: "(string \<times> number) list"
  td_issuedTime :: nat

text \<open>
  The role of a message is the constant \<open>Raw.ChatRole.Assistant\<close> in the
  streaming branch and whatever the body carries in the other.
\<close>

datatype ChatRole = Assistant | RoleValue jsvalue

record AssistantChatMessage =
  msg_role :: ChatRole
  msg_content :: jsvalue
  msg_name :: jsvalue
  msg_toolCalls :: jsvalue

record ChatCompletion =
  cc_blockFinished :: bool
  cc_choiceIndex :: nat
  cc_model :: jsvalue
  cc_filterReason :: jsvalue
  cc_finishReason :: jsvalue
  cc_message :: AssistantChatMessage
  cc_usage :: jsvalue
  cc_tokens :: "string list"
  cc_requestId :: "RequestId option"
  cc_telemetryData :: TelemetryData
  cc_error :: jsvalue

text \<open>What the stream processor yields: a \<open>FinishedCompletion\<close> of the host.\<close>

record Solution =
  sol_text :: "string list"
  sol_model :: jsvalue

record FinishedCompletion =
  fc_solution :: Solution
  fc_finishOffset :: "number option"
  fc_index :: nat
  fc_filterReason :: jsvalue
  fc_reason :: jsvalue
  fc_usage :: jsvalue
  fc_requestId :: "RequestId option"
  fc_error :: jsvalue

record ICopilotToolCall =
  tc_name :: json
  tc_arguments :: json
  tc_id :: json

record IResponseDelta =
  delta_text :: string
  delta_copilotToolCalls :: "ICopilotToolCall list"

text \<open>
  One invocation of the finish callback is the triple of its arguments. The
  callback is the caller's: given the invocations made before and the present
  one, it returns normally (\<open>None\<close>) or throws (\<open>Some e\<close>). Its return value is
  not read by this code.
\<close>

type_synonym cb_call = "string \<times> nat \<times> IResponseDelta"

type_synonym FinishedCallback = "cb_call list \<Rightarrow> cb_call \<Rightarrow> error option"

record CancellationToken =
  tok_isCancellationRequested :: bool

text \<open>
  The host services and library functions the endpoint calls, none of which
  this code defines: the fetcher, \<open>JSON.stringify\<close>, the stream processor
  (\<open>SSEProcessor.create\<close> followed by \<open>processSSE\<close>, with the callback
  invocations it makes and the completions it yields, or the error it ends
  with), \<open>getTextPart\<close> (the text of a message content, or the error it
  throws on a content it cannot read), \<open>generateUuid\<close> (the \<open>k\<close>-th
  identifier of a call) and \<open>TelemetryData.createAndMarkAsIssued({}, {})\<close>.
\<close>

record host =
  h_fetch :: "string \<Rightarrow> FetchOptions \<Rightarrow> error + Response"
  h_JSON_stringify :: "IEndpointBody \<Rightarrow> string"
  h_processSSE :: "nat \<Rightarrow> Response \<Rightarrow> FinishedCallback \<Rightarrow> CancellationToken option
                     \<Rightarrow> cb_call list \<times> (error + FinishedCompletion list)"
  h_getTextPart :: "jsvalue \<Rightarrow> error + string"
  h_generateUuid :: "nat \<Rightarrow> string"
  h_createAndMarkAsIssued :: TelemetryData

subsection \<open>Adapting the response\<close>

text \<open>\<open>str_includes s t\<close> is \<open>s.includes(t)\<close>.\<close>

fun str_includes :: "string \<Rightarrow> string \<Rightarrow> bool" where
  "str_includes [] t = (t = [])"
| "str_includes (c # s) t = (prefix t (c # s) \<or> str_includes s t)"

text \<open>The body of the streaming loop: one \<open>FinishedCompletion\<close> to one \<open>ChatCompletion\<close>.\<close>

definition toChatCompletion :: "TelemetryData \<Rightarrow> FinishedCompletion \<Rightarrow> ChatCompletion" where
  "toChatCompletion telemetryData finishedCompletion =
     (let messageText = concat (sol_text (fc_solution finishedCompletion));
          message = \<lparr> msg_role = Assistant,
                       msg_content = Some (JStr messageText),
                       msg_name = None,
                       msg_toolCalls = None \<rparr>
      in \<lparr> cc_blockFinished = (fc_finishOffset finishedCompletion \<noteq> None),
           cc_choiceIndex = fc_index finishedCompletion,
           cc_model = sol_model (fc_solution finishedCompletion),
           cc_filterReason = fc_filterReason finishedCompletion,
           cc_finishReason = fc_reason finishedCompletion,
           cc_message = message,
           cc_usage = fc_usage finishedCompletion,
           cc_tokens = sol_text (fc_solution finishedCompletion),
           cc_requestId = fc_requestId finishedCompletion,
           cc_telemetryData = telemetryData,
           cc_error = fc_error finishedCompletion \<rparr>)"

text \<open>
  The values \<open>jsonResponse.choices[i]\<close> for \<open>i\<close> below
  \<open>jsonResponse?.choices?.length || 0\<close>, in order. Without \<open>choices\<close>, or
  with \<open>null\<close>, a number or a boolean there, the bound is 0. An array gives
  its elements, a string its characters.

  An object under \<open>choices\<close> has the \<open>length\<close> it carries as a member, and
  the loop reads the members under the keys \<open>0\<close>, \<open>1\<close>, ... below it. A
  length that is left out or is \<open>null\<close>, \<open>false\<close>, \<open>0\<close> or the empty string
  gives the bound 0; \<open>true\<close> counts as 1; a number \<open>q\<close> lets the rounds
  \<open>i < q\<close> run; an object or an empty array compares as false. A member that
  is missing reads as \<open>undefined\<close>, which the round treats as it treats
  \<open>null\<close> (the read of \<open>choice.message\<close> throws), and is given as \<open>JNull\<close>.
  A length that is a non-empty string or a non-empty array would be compared
  after JavaScript's conversion of its text to a number: these two shapes
  are not followed (\<open>Unmodelled\<close>).
\<close>

definition indexedMembers :: "(string \<times> json) list \<Rightarrow> nat \<Rightarrow> json list" where
  "indexedMembers kvs n =
     map (\<lambda>i. case map_of kvs (decimal i) of None \<Rightarrow> JNull | Some v \<Rightarrow> v) [0..<n]"

definition choicesOf :: "json \<Rightarrow> error + json list" where
  "choicesOf jsonResponse =
     (case readOptional (Some jsonResponse) ''choices'' of
        None \<Rightarrow> Inr []
      | Some JNull \<Rightarrow> Inr []
      | Some (JBool b) \<Rightarrow> Inr []
      | Some (JNum n) \<Rightarrow> Inr []
      | Some (JStr s) \<Rightarrow> Inr (map (\<lambda>c. JStr [c]) s)
      | Some (JArr cs) \<Rightarrow> Inr cs
      | Some (JObj kvs) \<Rightarrow>
          (case map_of kvs ''length'' of
             None \<Rightarrow> Inr []
           | Some JNull \<Rightarrow> Inr []
           | Some (JBool b) \<Rightarrow> Inr (indexedMembers kvs (if b then 1 else 0))
           | Some (JNum q) \<Rightarrow> Inr (indexedMembers kvs (nat \<lceil>q\<rceil>))
           | Some (JStr l) \<Rightarrow> (if l = [] then Inr [] else Inl Unmodelled)
           | Some (JArr l) \<Rightarrow> (if l = [] then Inr [] else Inl Unmodelled)
           | Some (JObj l) \<Rightarrow> Inr []))"

text \<open>Sequencing of steps that may throw.\<close>

definition andThen :: "error + 'a \<Rightarrow> ('a \<Rightarrow> error + 'b) \<Rightarrow> error + 'b" where
  "andThen m f = (case m of Inl e \<Rightarrow> Inl e | Inr v \<Rightarrow> f v)"

text \<open>
  The object literal \<open>message\<close> of the loop: \<open>choice.message\<close> is read from the
  choice and the members are read from it, each read throwing on
  \<open>undefined\<close> and \<open>null\<close>.
\<close>

definition readMessage :: "json \<Rightarrow> error + AssistantChatMessage" where
  "readMessage choice =
     andThen (readProp (Some choice) ''message'') (\<lambda>m.
     andThen (readProp m ''role'') (\<lambda>role.
     andThen (readProp m ''content'') (\<lambda>content.
     andThen (readProp m ''name'') (\<lambda>name.
     andThen (readProp m ''toolCalls'') (\<lambda>toolCalls.
     andThen (readProp m ''tool_calls'') (\<lambda>tool_calls.
       Inr \<lparr> msg_role = RoleValue role,
             msg_content = content,
             msg_name = name,
             msg_toolCalls = nullish toolCalls tool_calls \<rparr>))))))"

text \<open>
  \<open>iterable v\<close> is what \<open>for (const tool of v ?? [])\<close> runs over: nothing for
  \<open>undefined\<close> and \<open>null\<close>, the elements of an array, the characters of a
  string; a number, a boolean and an object cannot be iterated.
\<close>

fun iterable :: "jsvalue \<Rightarrow> error + json list" where
  "iterable None = Inr []"
| "iterable (Some JNull) = Inr []"
| "iterable (Some (JArr ts)) = Inr ts"
| "iterable (Some (JStr s)) = Inr (map (\<lambda>c. JStr [c]) s)"
| "iterable (Some v) = Inl TypeError"

text \<open>The entry pushed for one tool call; \<open>tool.function\<close> throws on \<open>null\<close>.\<close>

fun toolCall :: "json \<Rightarrow> error + ICopilotToolCall" where
  "toolCall JNull = Inl TypeError"
| "toolCall tool =
     Inr \<lparr> tc_name = orEmpty (readOptional (readMember tool ''function'') ''name''),
           tc_arguments = orEmpty (readOptional (readMember tool ''function'') ''arguments''),
           tc_id = orEmpty (readMember tool ''id'') \<rparr>"

fun toolCalls :: "json list \<Rightarrow> error + ICopilotToolCall list" where
  "toolCalls [] = Inr []"
| "toolCalls (tool # tools) =
     andThen (toolCall tool) (\<lambda>c. andThen (toolCalls tools) (\<lambda>cs. Inr (c # cs)))"

text \<open>
  One round of the loop over the choices, for the choice at index \<open>i\<close>:
  given the callback invocations made so far, the invocations after the round
  and the completion it pushes, or the error it throws. The steps are in the
  order of the source: the message is read, \<open>getTextPart\<close> gives its text,
  the request id and the completion are built, the tool calls are
  converted, the callback is invoked.
\<close>

definition processChoice ::
  "host \<Rightarrow> Response \<Rightarrow> FinishedCallback \<Rightarrow> TelemetryData \<Rightarrow> json \<Rightarrow> nat \<Rightarrow> json
     \<Rightarrow> cb_call list \<Rightarrow> cb_call list \<times> (error + ChatCompletion)" where
  "processChoice h response finishCallback telemetryData jsonResponse i choice calls =
     (case readMessage choice of
        Inl e \<Rightarrow> (calls, Inl e)
      | Inr message \<Rightarrow>
          (case h_getTextPart h (msg_content message) of
             Inl e \<Rightarrow> (calls, Inl e)
           | Inr messageText \<Rightarrow>
          (let requestId = (case resp_headers_get response ''X-Request-ID'' of
                              None \<Rightarrow> h_generateUuid h i
                            | Some v \<Rightarrow> v);
               completion =
                 \<lparr> cc_blockFinished = False,
                   cc_choiceIndex = i,
                   cc_model = readMember jsonResponse ''model'',
                   cc_filterReason = None,
                   cc_finishReason = readMember choice ''finish_reason'',
                   cc_message = message,
                   cc_usage = readMember jsonResponse ''usage'',
                   cc_tokens = [],
                   cc_requestId = Some
                     \<lparr> rid_headerRequestId = requestId,
                       rid_gitHubRequestId = [],
                       rid_completionId = readMember jsonResponse ''id'',
                       rid_created = readMember jsonResponse ''created'',
                       rid_deploymentId = [],
                       rid_serverExperiments = [] \<rparr>,
                   cc_telemetryData = telemetryData,
                   cc_error = None \<rparr>
           in case andThen (iterable (msg_toolCalls message)) toolCalls of
                Inl e \<Rightarrow> (calls, Inl e)
              | Inr functionCall \<Rightarrow>
                  (let call = (messageText, i,
                               \<lparr> delta_text = messageText,
                                 delta_copilotToolCalls = functionCall \<rparr>)
                   in case finishCallback calls call of
                        Some e \<Rightarrow> (calls @ [call], Inl e)
                      | None \<Rightarrow> (calls @ [call], Inr completion)))))"

fun choicesLoop ::
  "host \<Rightarrow> Response \<Rightarrow> FinishedCallback \<Rightarrow> TelemetryData \<Rightarrow> json \<Rightarrow> nat \<Rightarrow> json list
     \<Rightarrow> cb_call list \<Rightarrow> ChatCompletion list \<Rightarrow> cb_call list \<times> (error + ChatCompletion list)" where
  "choicesLoop h response finishCallback telemetryData jsonResponse i [] calls completions =
     (calls, Inr completions)"
| "choicesLoop h response finishCallback telemetryData jsonResponse i (choice # rest) calls completions =
     (case processChoice h response finishCallback telemetryData jsonResponse i choice calls of
        (calls', Inl e) \<Rightarrow> (calls', Inl e)
      | (calls', Inr completion) \<Rightarrow>
          choicesLoop h response finishCallback telemetryData jsonResponse (Suc i) rest
            calls' (completions @ [completion]))"

definition processNonStreamingResponse ::
  "host \<Rightarrow> Response \<Rightarrow> FinishedCallback \<Rightarrow> TelemetryData
     \<Rightarrow> cb_call list \<times> (error + ChatCompletion list)" where
  "processNonStreamingResponse h response finishCallback telemetryData =
     (case resp_parsed response of
        Inl e \<Rightarrow> ([], Inl e)
      | Inr jsonResponse \<Rightarrow>
          (case choicesOf jsonResponse of
             Inl e \<Rightarrow> ([], Inl e)
           | Inr choices \<Rightarrow>
               choicesLoop h response finishCallback telemetryData jsonResponse 0 choices [] []))"

definition contentTypeOf :: "Response \<Rightarrow> string" where
  "contentTypeOf response =
     (case resp_headers_get response ''content-type'' of
        None \<Rightarrow> []
      | Some v \<Rightarrow> (if v = [] then [] else v))"

definition processResponseFromChatEndpoint ::
  "host \<Rightarrow> LocalLlmEndpoint \<Rightarrow> Response \<Rightarrow> nat \<Rightarrow> FinishedCallback \<Rightarrow> TelemetryData
     \<Rightarrow> CancellationToken option \<Rightarrow> cb_call list \<times> (error + ChatCompletion list)" where
  "processResponseFromChatEndpoint h this response expectedNumChoices finishCallback
       telemetryData cancellationToken =
     (let contentType = contentTypeOf response
      in if str_includes contentType ''text/event-stream'' then
           (case h_processSSE h expectedNumChoices response finishCallback cancellationToken of
              (calls, Inl e) \<Rightarrow> (calls, Inl e)
            | (calls, Inr finished) \<Rightarrow> (calls, Inr (map (toChatCompletion telemetryData) finished)))
         else processNonStreamingResponse h response finishCallback telemetryData)"

subsection \<open>Making a chat request\<close>

record OptionalChatRequestParams =
  rp_max_tokens :: "number option"
  rp_temperature :: "number option"
  rp_top_p :: "number option"
  rp_tools :: "json list option"

record IMakeChatRequestOptions =
  mo_debugName :: string
  mo_messages :: "CAPIChatMessage list"
  mo_finishedCb :: "FinishedCallback option"
  mo_location :: nat
  mo_source :: "string option"
  mo_requestOptions :: "OptionalChatRequestParams option"
  mo_userInitiatedRequest :: "bool option"
  mo_telemetryProperties :: "(string \<times> string) list option"

datatype ChatFetchResponseType = Success

record ChatResponse =
  cr_type :: ChatFetchResponseType
  cr_value :: string
  cr_requestId :: string
  cr_serverRequestId :: string
  cr_usage :: jsvalue
  cr_resolvedModel :: string

text \<open>
  What a call of \<open>makeChatRequest2\<close> leaves behind: the endpoint after the
  call, the requests it sent through the fetcher, the invocations of the
  finish callback, and the value the returned promise settles to.
\<close>

record outcome =
  out_this :: LocalLlmEndpoint
  out_requests :: "(string \<times> FetchOptions) list"
  out_callbacks :: "cb_call list"
  out_result :: "error + ChatResponse"

text \<open>
  The closing loop over the completions: each round overwrites the three
  variables, which start as \<open>''\<close>, \<open>''\<close> and \<open>undefined\<close>, and ends the
  call if \<open>getTextPart\<close> throws.
\<close>

fun extractLoop ::
  "host \<Rightarrow> ChatCompletion list \<Rightarrow> string \<times> string \<times> jsvalue
     \<Rightarrow> error + string \<times> string \<times> jsvalue" where
  "extractLoop h [] vars = Inr vars"
| "extractLoop h (completion # rest) vars =
     (case h_getTextPart h (msg_content (cc_message completion)) of
        Inl e \<Rightarrow> Inl e
      | Inr messageText \<Rightarrow>
          extractLoop h rest
            (messageText,
             (case cc_requestId completion of
                None \<Rightarrow> []
              | Some rid \<Rightarrow> (if rid_headerRequestId rid = [] then [] else rid_headerRequestId rid)),
             cc_usage completion))"

definition extractLast ::
  "host \<Rightarrow> ChatCompletion list \<Rightarrow> error + string \<times> string \<times> jsvalue" where
  "extractLast h completions = extractLoop h completions ([], [], None)"

text \<open>
  The argument object of \<open>createRequestBody\<close>, with \<open>requestOptions?.max_tokens\<close>
  and its like read through the optional chain.
\<close>

definition requestBodyOptions :: "IMakeChatRequestOptions \<Rightarrow> ICreateEndpointBodyOptions" where
  "requestBodyOptions options =
     \<lparr> cbo_messages = Some (mo_messages options),
       cbo_maxOutputTokens =
         (case mo_requestOptions options of None \<Rightarrow> None | Some ro \<Rightarrow> rp_max_tokens ro),
       cbo_temperature =
         (case mo_requestOptions options of None \<Rightarrow> None | Some ro \<Rightarrow> rp_temperature ro),
       cbo_topP =
         (case mo_requestOptions options of None \<Rightarrow> None | Some ro \<Rightarrow> rp_top_p ro),
       cbo_tools =
         (case mo_requestOptions options of None \<Rightarrow> None | Some ro \<Rightarrow> rp_tools ro) \<rparr>"

text \<open>\<open>options.finishedCb ?? (() => { })\<close>.\<close>

definition finishedCbOrNoop :: "IMakeChatRequestOptions \<Rightarrow> FinishedCallback" where
  "finishedCbOrNoop options =
     (case mo_finishedCb options of None \<Rightarrow> (\<lambda>calls call. None) | Some cb \<Rightarrow> cb)"

definition makeChatRequest2 ::
  "host \<Rightarrow> LocalLlmEndpoint \<Rightarrow> IMakeChatRequestOptions \<Rightarrow> CancellationToken \<Rightarrow> outcome" where
  "makeChatRequest2 h this options token =
     (let body = createRequestBody this (requestBodyOptions options);
          body = (case interceptBody this (Some body) of None \<Rightarrow> body | Some b \<Rightarrow> b);
          url = urlOrRequestMetadata this;
          init = \<lparr> fo_method = ''POST'',
                    fo_headers = getExtraHeaders this,
                    fo_body = h_JSON_stringify h body \<rparr>
      in case h_fetch h url init of
           Inl e \<Rightarrow>
             \<lparr> out_this = this, out_requests = [(url, init)], out_callbacks = [],
               out_result = Inl e \<rparr>
         | Inr response \<Rightarrow>
             if \<not> resp_ok response then
               \<lparr> out_this = this, out_requests = [(url, init)], out_callbacks = [],
                 out_result = Inl (Error (''Local LLM request failed: ''
                                           @ decimal (resp_status response) @ '' ''
                                           @ resp_statusText response)) \<rparr>
             else
               (let telemetryData = h_createAndMarkAsIssued h;
                    finishedCb = finishedCbOrNoop options
                in case processResponseFromChatEndpoint h this response 1 finishedCb
                          telemetryData (Some token) of
                     (calls, Inl e) \<Rightarrow>
                       \<lparr> out_this = this, out_requests = [(url, init)], out_callbacks = calls,
                         out_result = Inl e \<rparr>
                   | (calls, Inr completions) \<Rightarrow>
                       (case extractLast h completions of
                          Inl e \<Rightarrow>
                            \<lparr> out_this = this, out_requests = [(url, init)],
                              out_callbacks = calls, out_result = Inl e \<rparr>
                        | Inr (messageText, requestId, usage) \<Rightarrow>
                            \<lparr> out_this = this, out_requests = [(url, init)],
                              out_callbacks = calls,
                              out_result = Inr
                                \<lparr> cr_type = Success,
                                  cr_value = messageText,
                                  cr_requestId = requestId,
                                  cr_serverRequestId = requestId,
                                  cr_usage = usage,
                                  cr_resolvedModel = ep_model this \<rparr> \<rparr>)))"

definition makeChatRequest ::
  "host \<Rightarrow> LocalLlmEndpoint \<Rightarrow> string \<Rightarrow> CAPIChatMessage list \<Rightarrow> FinishedCallback option
     \<Rightarrow> CancellationToken \<Rightarrow> nat \<Rightarrow> string option \<Rightarrow> OptionalChatRequestParams option
     \<Rightarrow> bool option \<Rightarrow> (string \<times> string) list option \<Rightarrow> outcome" where
  "makeChatRequest h this debugName messages finishedCb token location source requestOptions
       userInitiatedRequest telemetryProperties =
     makeChatRequest2 h this
       \<lparr> mo_debugName = debugName,
         mo_messages = messages,
         mo_finishedCb = finishedCb,
         mo_location = location,
         mo_source = source,
         mo_requestOptions = requestOptions,
         mo_userInitiatedRequest = userInitiatedRequest,
         mo_telemetryProperties = telemetryProperties \<rparr>
       token"

subsection \<open>The endpoint provider\<close>

text \<open>
  \<open>LocalEndpointProvider\<close> caches the endpoint object it creates. Objects
  made by \<open>new LocalLlmEndpoint\<close> live in a store, and a reference to one is
  its position there, so that two references are the same object exactly
  when they are equal.
\<close>

type_synonym store = "LocalLlmEndpoint list"

record LocalEndpointProvider =
  lep_serverUrl :: string
  lep_chatEndpoint :: "nat option"

definition new_LocalEndpointProvider :: "string \<Rightarrow> LocalEndpointProvider" where
  "new_LocalEndpointProvider serverUrl =
     \<lparr> lep_serverUrl = (if serverUrl = [] then ''http://127.0.0.1:8777'' else serverUrl),
       lep_chatEndpoint = None \<rparr>"

definition getOrCreateLocalEndpoint ::
  "store \<times> LocalEndpointProvider \<Rightarrow> nat \<times> store \<times> LocalEndpointProvider" where
  "getOrCreateLocalEndpoint s =
     (case s of (objects, this) \<Rightarrow>
        (case lep_chatEndpoint this of
           None \<Rightarrow>
             (let modelMetadata = createLocalModelMetadata;
                  created = new_LocalLlmEndpoint modelMetadata (lep_serverUrl this)
              in (length objects, objects @ [created],
                  this \<lparr> lep_chatEndpoint := Some (length objects) \<rparr>))
         | Some endpoint \<Rightarrow> (endpoint, objects, this)))"

definition getChatEndpoint ::
  "store \<times> LocalEndpointProvider \<Rightarrow> 'req \<Rightarrow> (error + nat) \<times> store \<times> LocalEndpointProvider" where
  "getChatEndpoint s requestOrFamilyOrModel =
     (case getOrCreateLocalEndpoint s of (endpoint, s') \<Rightarrow> (Inr endpoint, s'))"

definition getAllChatEndpoints ::
  "store \<times> LocalEndpointProvider \<Rightarrow> (error + nat list) \<times> store \<times> LocalEndpointProvider" where
  "getAllChatEndpoints s =
     (case getOrCreateLocalEndpoint s of (endpoint, s') \<Rightarrow> (Inr [endpoint], s'))"

text \<open>
  A call of one of the two methods, what it returns, and a sequence of calls
  on the same provider run in order.
\<close>

datatype provider_call = GetChatEndpoint | GetAllChatEndpoints

datatype provider_result = Endpoint "error + nat" | Endpoints "error + nat list"

fun provider_step ::
  "store \<times> LocalEndpointProvider \<Rightarrow> provider_call
     \<Rightarrow> provider_result \<times> store \<times> LocalEndpointProvider" where
  "provider_step s GetChatEndpoint =
     (case getChatEndpoint s () of (r, s') \<Rightarrow> (Endpoint r, s'))"
| "provider_step s GetAllChatEndpoints =
     (case getAllChatEndpoints s of (r, s') \<Rightarrow> (Endpoints r, s'))"

fun provider_run ::
  "store \<times> LocalEndpointProvider \<Rightarrow> provider_call list
     \<Rightarrow> provider_result list \<times> store \<times> LocalEndpointProvider" where
  "provider_run s [] = ([], s)"
| "provider_run s (c # cs) =
     (case provider_step s c of (r, s') \<Rightarrow>
        (case provider_run s' cs of (rs, s'') \<Rightarrow> (r # rs, s'')))"

text \<open>What a call returns when it returns the endpoint object \<open>endpoint\<close>.\<close>

definition sameEndpoint :: "nat \<Rightarrow> provider_call \<Rightarrow> provider_result" where
  "sameEndpoint endpoint c =
     (case c of
        GetChatEndpoint \<Rightarrow> Endpoint (Inr endpoint)
      | GetAllChatEndpoints \<Rightarrow> Endpoints (Inr [endpoint]))"

subsection \<open>The body the loop can read, in the words of the chat-completions format\<close>

text \<open>
  \<open>fieldOf v k\<close> is the member \<open>k\<close> of an object, and nothing for any other
  value; a value is present when it is neither left out nor \<open>null\<close>. The
  message of a choice is its member \<open>message\<close>, and the tool calls of a
  choice are the array under \<open>toolCalls\<close> of its message, or under
  \<open>tool_calls\<close> when the former is not present.
\<close>

definition fieldOf :: "json \<Rightarrow> string \<Rightarrow> jsvalue" where
  "fieldOf v k = (case v of JObj kvs \<Rightarrow> map_of kvs k | _ \<Rightarrow> None)"

definition present :: "jsvalue \<Rightarrow> bool" where
  "present v = (v \<noteq> None \<and> v \<noteq> Some JNull)"

definition messageOf :: "json \<Rightarrow> json" where
  "messageOf choice = (case fieldOf choice ''message'' of Some m \<Rightarrow> m | None \<Rightarrow> JNull)"

definition toolCallsField :: "json \<Rightarrow> jsvalue" where
  "toolCallsField choice =
     (if present (fieldOf (messageOf choice) ''toolCalls'')
      then fieldOf (messageOf choice) ''toolCalls''
      else fieldOf (messageOf choice) ''tool_calls'')"

definition toolCallsOfChoice :: "json \<Rightarrow> json list" where
  "toolCallsOfChoice choice = (case toolCallsField choice of Some (JArr ts) \<Rightarrow> ts | _ \<Rightarrow> [])"

text \<open>
  A choice is well formed when it carries a message, and its tool calls are
  left out, \<open>null\<close>, or an array without a \<open>null\<close> entry.
\<close>

definition notNull :: "json \<Rightarrow> bool" where
  "notNull v = (v \<noteq> JNull)"

definition wellFormedChoice :: "json \<Rightarrow> bool" where
  "wellFormedChoice choice =
     (present (fieldOf choice ''message'') \<and>
      (case toolCallsField choice of
         None \<Rightarrow> True
       | Some JNull \<Rightarrow> True
       | Some (JArr ts) \<Rightarrow> list_all notNull ts
       | Some v \<Rightarrow> False))"

text \<open>
  The entry for one tool call: name and arguments from its \<open>function\<close>, the
  id from the tool call, the empty string where one is missing.
\<close>

definition valueOrEmpty :: "jsvalue \<Rightarrow> json" where
  "valueOrEmpty v = (case v of Some x \<Rightarrow> (if x = JNull then JStr [] else x) | None \<Rightarrow> JStr [])"

definition expectedToolCall :: "json \<Rightarrow> ICopilotToolCall" where
  "expectedToolCall tool =
     \<lparr> tc_name =
         (case fieldOf tool ''function'' of
            None \<Rightarrow> JStr []
          | Some f \<Rightarrow> valueOrEmpty (fieldOf f ''name'')),
       tc_arguments =
         (case fieldOf tool ''function'' of
            None \<Rightarrow> JStr []
          | Some f \<Rightarrow> valueOrEmpty (fieldOf f ''arguments'')),
       tc_id = valueOrEmpty (fieldOf tool ''id'') \<rparr>"

text \<open>
  The text of a choice's message is what the host's \<open>getTextPart\<close> makes of
  the content of the message, when it returns.
\<close>

definition messageTextOf :: "host \<Rightarrow> json \<Rightarrow> error + string" where
  "messageTextOf h choice = h_getTextPart h (fieldOf (messageOf choice) ''content'')"

text \<open>
  The invocation the finish callback is to receive for the choice at index
  \<open>i\<close> whose message text is \<open>messageText\<close>.
\<close>

definition expectedCall :: "string \<Rightarrow> nat \<Rightarrow> json \<Rightarrow> cb_call" where
  "expectedCall messageText i choice =
     (messageText, i,
      \<lparr> delta_text = messageText,
        delta_copilotToolCalls = map expectedToolCall (toolCallsOfChoice choice) \<rparr>)"

text \<open>
  The completion a choice at index \<open>i\<close> is normalised to: it keeps the role,
  the content and the finish reason of the choice, has the index of the
  choice, is not block-finished, has no tokens and carries the telemetry
  data of the call.
\<close>

definition normalisedFrom :: "TelemetryData \<Rightarrow> nat \<Rightarrow> json \<Rightarrow> ChatCompletion \<Rightarrow> bool" where
  "normalisedFrom td i choice completion =
     (cc_choiceIndex completion = i
      \<and> msg_role (cc_message completion) = RoleValue (fieldOf (messageOf choice) ''role'')
      \<and> msg_content (cc_message completion) = fieldOf (messageOf choice) ''content''
      \<and> cc_finishReason completion = fieldOf choice ''finish_reason''
      \<and> cc_blockFinished completion = False
      \<and> cc_tokens completion = []
      \<and> cc_telemetryData completion = td)"

subsection \<open>Sample inputs\<close>

text \<open>
  A host for the examples: its fetcher answers every request with the given
  response, its stream processor yields the given completions without
  calling back, its \<open>getTextPart\<close> returns a string as it is, throws a
  TypeError on an array with a \<open>null\<close> entry and returns the empty string for
  anything else, and its \<open>JSON.stringify\<close> is cut down to one fixed text.
\<close>

definition sample_telemetry :: TelemetryData where
  "sample_telemetry = \<lparr> td_properties = [], td_measurements = [], td_issuedTime = 0 \<rparr>"

definition sample_host :: "Response \<Rightarrow> FinishedCompletion list \<Rightarrow> host" where
  "sample_host response finished =
     \<lparr> h_fetch = (\<lambda>url init. Inr response),
       h_JSON_stringify = (\<lambda>body. ''{}''),
       h_processSSE = (\<lambda>n r cb tok. ([], Inr finished)),
       h_getTextPart =
         (\<lambda>v. case v of
                Some (JStr s) \<Rightarrow> Inr s
              | Some (JArr parts) \<Rightarrow> (if JNull \<in> set parts then Inl TypeError else Inr [])
              | _ \<Rightarrow> Inr []),
       h_generateUuid = (\<lambda>k. ''uuid-'' @ decimal k),
       h_createAndMarkAsIssued = sample_telemetry \<rparr>"

definition sample_endpoint :: LocalLlmEndpoint where
  "sample_endpoint = new_LocalLlmEndpoint createLocalModelMetadata ''http://127.0.0.1:8777''"

definition sample_options :: IMakeChatRequestOptions where
  "sample_options =
     \<lparr> mo_debugName = ''sample'',
       mo_messages = [[(''role'', JStr ''user''), (''content'', JStr ''hi''),
                       (''copilot_references'', JArr [])]],
       mo_finishedCb = None,
       mo_location = 0,
       mo_source = None,
       mo_requestOptions = None,
       mo_userInitiatedRequest = None,
       mo_telemetryProperties = None \<rparr>"

definition sample_token :: CancellationToken where
  "sample_token = \<lparr> tok_isCancellationRequested = False \<rparr>"

definition json_headers :: "string \<Rightarrow> string option" where
  "json_headers = map_of [(''content-type'', ''application/json'')]"

definition sse_headers :: "string \<Rightarrow> string option" where
  "sse_headers = map_of [(''content-type'', ''text/event-stream; charset=utf-8'')]"

text \<open>Status 200 with a body that is not JSON.\<close>

definition not_json_response :: Response where
  "not_json_response =
     \<lparr> resp_ok = True, resp_status = 200, resp_statusText = ''OK'',
       resp_headers_get = json_headers, resp_parsed = Inl SyntaxError \<rparr>"

text \<open>Status 404.\<close>

definition not_found_response :: Response where
  "not_found_response =
     \<lparr> resp_ok = False, resp_status = 404, resp_statusText = ''Not Found'',
       resp_headers_get = json_headers, resp_parsed = Inl SyntaxError \<rparr>"

text \<open>
  Status 200 with the body
  \<^verbatim>\<open>{"choices":[{"index":0,"text":"hi","finish_reason":"stop"}]}\<close>:
  one choice, in the shape of the older completions format, without \<open>message\<close>.
\<close>

definition text_choice :: json where
  "text_choice = JObj [(''index'', JNum 0), (''text'', JStr ''hi''), (''finish_reason'', JStr ''stop'')]"

definition text_choice_response :: Response where
  "text_choice_response =
     \<lparr> resp_ok = True, resp_status = 200, resp_statusText = ''OK'',
       resp_headers_get = json_headers,
       resp_parsed = Inr (JObj [(''choices'', JArr [text_choice])]) \<rparr>"

text \<open>
  Status 200 with two well-formed choices, the second carrying a tool call
  without an id:
  \<^verbatim>\<open>{"id":"c1","model":"m","choices":[
    {"message":{"role":"assistant","content":"hello"},"finish_reason":"stop"},
    {"message":{"role":"assistant","content":null,"tool_calls":[
       {"type":"function","function":{"name":"read","arguments":"{}"}}]}}]}\<close>
\<close>

definition hello_choice :: json where
  "hello_choice =
     JObj [(''message'', JObj [(''role'', JStr ''assistant''), (''content'', JStr ''hello'')]),
           (''finish_reason'', JStr ''stop'')]"

definition tool_choice :: json where
  "tool_choice =
     JObj [(''message'',
            JObj [(''role'', JStr ''assistant''), (''content'', JNull),
                  (''tool_calls'',
                   JArr [JObj [(''type'', JStr ''function''),
                               (''function'', JObj [(''name'', JStr ''read''),
                                                    (''arguments'', JStr ''{}'')])]])])]"

definition two_choices_response :: Response where
  "two_choices_response =
     \<lparr> resp_ok = True, resp_status = 200, resp_statusText = ''OK'',
       resp_headers_get = json_headers,
       resp_parsed = Inr (JObj [(''id'', JStr ''c1''), (''model'', JStr ''m''),
                                (''choices'', JArr [hello_choice, tool_choice])]) \<rparr>"

text \<open>A streamed response and the one completion the processor finishes from it.\<close>

definition sse_response :: Response where
  "sse_response =
     \<lparr> resp_ok = True, resp_status = 200, resp_statusText = ''OK'',
       resp_headers_get = sse_headers, resp_parsed = Inl SyntaxError \<rparr>"

definition sample_finished :: FinishedCompletion where
  "sample_finished =
     \<lparr> fc_solution = \<lparr> sol_text = [''Hel'', ''lo''], sol_model = Some (JStr ''m'') \<rparr>,
       fc_finishOffset = None,
       fc_index = 0,
       fc_filterReason = None,
       fc_reason = Some (JStr ''stop''),
       fc_usage = None,
       fc_requestId = None,
       fc_error = None \<rparr>"

text \<open>A finish callback that throws at every invocation.\<close>

definition throwing_callback :: FinishedCallback where
  "throwing_callback = (\<lambda>calls call. Some (Rejected ''callback failed''))"

text \<open>
  A choice whose message lists \<open>null\<close> among its tool calls:
  \<^verbatim>\<open>{"message":{"role":"assistant","content":"x","tool_calls":[null]}}\<close>
\<close>

definition null_tool_choice :: json where
  "null_tool_choice =
     JObj [(''message'',
            JObj [(''role'', JStr ''assistant''), (''content'', JStr ''x''),
                  (''tool_calls'', JArr [JNull])])]"

text \<open>
  A choice whose message has the content \<^verbatim>\<open>[null]\<close>:
  \<^verbatim>\<open>{"message":{"role":"assistant","content":[null]}}\<close>
\<close>

definition null_content_choice :: json where
  "null_content_choice =
     JObj [(''message'', JObj [(''role'', JStr ''assistant''), (''content'', JArr [JNull])])]"

definition null_content_response :: Response where
  "null_content_response =
     \<lparr> resp_ok = True, resp_status = 200, resp_statusText = ''OK'',
       resp_headers_get = json_headers,
       resp_parsed = Inr (JObj [(''choices'', JArr [null_content_choice])]) \<rparr>"

section \<open>Properties\<close>

subsection \<open>Constant answers of the fake and null services\<close>

text \<open>
  C5. The fake authentication provider answers with the one session it was
  built with, whatever scopes it is asked for: \<open>getSessions\<close> returns the
  one-element list holding the session with id \<open>fake-github-session\<close>,
  \<open>createSession\<close> returns that same session, \<open>removeSession\<close> leaves the
  provider as it is, and firing the session change event does not change
  the answer. The null authentication service answers
  \<open>getGitHubSession\<close> with its session with id \<open>local-session\<close> for every kind
  and every options. None of these methods is given a fetcher: each is a
  function of the object alone.
\<close>

theorem fake_auth_constant_session:
  "getSessions new_FakeGitHubAuthenticationProvider scopes =
     Inr [\<lparr> sess_id = ''fake-github-session'',
            sess_accessToken = ''fake-github-access-token-for-local-llm'',
            sess_account = \<lparr> acc_id = ''local-user'', acc_label = ''Local LLM User'' \<rparr>,
            sess_scopes = [''user:email'', ''read:user'', ''repo'', ''workflow''] \<rparr>]
   \<and> getSessions new_FakeGitHubAuthenticationProvider scopes =
       Inr [fgh_session new_FakeGitHubAuthenticationProvider]
   \<and> createSession new_FakeGitHubAuthenticationProvider scopes' =
       Inr (fgh_session new_FakeGitHubAuthenticationProvider)
   \<and> fst (removeSession new_FakeGitHubAuthenticationProvider sessionId) =
       new_FakeGitHubAuthenticationProvider
   \<and> getSessions (emitSessionChange new_FakeGitHubAuthenticationProvider) scopes =
       getSessions new_FakeGitHubAuthenticationProvider scopes
   \<and> getGitHubSession new_NullAuthenticationService kind opts =
       Inr (nas_fakeSession new_NullAuthenticationService)
   \<and> sess_id (nas_fakeSession new_NullAuthenticationService) = ''local-session''"
  by (simp add: getSessions_def createSession_def removeSession_def getGitHubSession_def
      emitSessionChange_def new_FakeGitHubAuthenticationProvider_def
      new_NullAuthenticationService_def SESSION_ID_def)

lemma quota_step_id: "quota_step this c = this"
  by (cases c) (simp_all add: processQuotaHeaders_def clearQuota_def)

lemma quota_run_id: "quota_run this calls = this"
  unfolding quota_run_def by (induction calls) (simp_all add: quota_step_id)

text \<open>
  C6. After any sequence of calls the null quota service reports that the
  quota is not exhausted and that overages are enabled; \<open>processQuotaHeaders\<close>
  and \<open>clearQuota\<close> return the service unchanged for every input, and so does
  every sequence of calls.
\<close>

theorem null_quota_constant:
  "quotaExhausted (quota_run this calls) = False
   \<and> overagesEnabled (quota_run this calls) = True
   \<and> processQuotaHeaders this hdrs = this
   \<and> clearQuota this = this
   \<and> quota_run this calls = this"
  by (simp add: quota_run_id quotaExhausted_def overagesEnabled_def
      processQuotaHeaders_def clearQuota_def)

text \<open>
  C7. For every request and every request metadata, \<open>makeRequest\<close> of the null
  CAPI client returns a promise rejected with the error
  \<open>CAPI not available in local mode\<close>, and sends nothing.
\<close>

theorem null_capi_rejects:
  "makeRequest this request requestMetadata =
     (Inl (Error ''CAPI not available in local mode''), [])"
  by (simp add: makeRequest_def)

text \<open>
  C10. \<open>resolveAutoModeEndpoint\<close> throws \<open>No endpoints provided for auto mode.\<close>
  exactly when the list of known endpoints is empty, and throws nothing else;
  for a non-empty list it returns the \<open>AutoChatEndpoint\<close> built from the first
  element of the list, the session token \<open>local-session-token\<close>, discount 0
  and the discount range from 0 to 0.
\<close>

theorem automode_first_endpoint:
  "(resolveAutoModeEndpoint chatRequest knownEndpoints =
      Inl (Error ''No endpoints provided for auto mode.'') \<longleftrightarrow> knownEndpoints = [])
   \<and> ((\<exists>e. resolveAutoModeEndpoint chatRequest knownEndpoints = Inl e) \<longleftrightarrow> knownEndpoints = [])
   \<and> (knownEndpoints \<noteq> [] \<longrightarrow>
        resolveAutoModeEndpoint chatRequest knownEndpoints =
          Inr \<lparr> ace_wrappedEndpoint = hd knownEndpoints,
                ace_sessionToken = ''local-session-token'',
                ace_discountPercent = 0,
                ace_discountRange = \<lparr> dr_low = 0, dr_high = 0 \<rparr> \<rparr>)"
  by (cases knownEndpoints) simp_all

theorem automode_first_endpoint_witness:
  "[sample_endpoint, sample_endpoint \<lparr> ep_model := ''other'' \<rparr>] \<noteq> []
   \<and> resolveAutoModeEndpoint (None :: unit option)
        [sample_endpoint, sample_endpoint \<lparr> ep_model := ''other'' \<rparr>] =
       Inr \<lparr> ace_wrappedEndpoint = sample_endpoint,
             ace_sessionToken = ''local-session-token'',
             ace_discountPercent = 0,
             ace_discountRange = \<lparr> dr_low = 0, dr_high = 0 \<rparr> \<rparr>"
  using automode_first_endpoint [of "None :: unit option"
      "[sample_endpoint, sample_endpoint \<lparr> ep_model := ''other'' \<rparr>]"]
  by simp

subsection \<open>The response adapter\<close>

lemma str_includes_sublist: "str_includes s t \<longleftrightarrow> sublist t s"
  by (induction s) (auto simp: sublist_Cons_right)

lemma contentType_contains:
  "str_includes (contentTypeOf response) ''text/event-stream'' \<longleftrightarrow>
     (\<exists>v. resp_headers_get response ''content-type'' = Some v \<and> sublist ''text/event-stream'' v)"
  by (auto simp: contentTypeOf_def str_includes_sublist split: option.splits)

lemma readMember_fieldOf: "k \<noteq> ''length'' \<Longrightarrow> readMember v k = fieldOf v k"
  by (cases v) (simp_all add: fieldOf_def)

lemma readProp_notNull: "v \<noteq> JNull \<Longrightarrow> readProp (Some v) k = Inr (readMember v k)"
  by (cases v) simp_all

lemma orEmpty_valueOrEmpty: "orEmpty v = valueOrEmpty v"
  by (cases v rule: orEmpty.cases) (simp_all add: valueOrEmpty_def)

lemma nullish_present: "nullish a b = (if present a then a else b)"
  by (cases "(a, b)" rule: nullish.cases) (simp_all add: present_def)

lemma readOptional_orEmpty:
  "k \<noteq> ''length'' \<Longrightarrow>
   orEmpty (readOptional fo k) =
     (case fo of None \<Rightarrow> JStr [] | Some f \<Rightarrow> valueOrEmpty (fieldOf f k))"
  by (cases "(fo, k)" rule: readOptional.cases)
     (simp_all add: readMember_fieldOf orEmpty_valueOrEmpty, simp_all add: valueOrEmpty_def fieldOf_def)

lemma toolCall_notNull:
  assumes "notNull tool"
  shows "toolCall tool = Inr (expectedToolCall tool)"
proof -
  have "toolCall tool =
          Inr \<lparr> tc_name = orEmpty (readOptional (readMember tool ''function'') ''name''),
                tc_arguments = orEmpty (readOptional (readMember tool ''function'') ''arguments''),
                tc_id = orEmpty (readMember tool ''id'') \<rparr>"
    using assms by (cases tool) (simp_all add: notNull_def)
  moreover have "orEmpty (readMember tool ''id'') = valueOrEmpty (fieldOf tool ''id'')"
    by (simp add: readMember_fieldOf orEmpty_valueOrEmpty)
  ultimately show ?thesis
    by (simp add: expectedToolCall_def readOptional_orEmpty readMember_fieldOf)
qed

lemma toolCalls_notNull:
  "list_all notNull ts \<Longrightarrow> toolCalls ts = Inr (map expectedToolCall ts)"
  by (induction ts) (simp_all add: andThen_def toolCall_notNull)

lemma wellFormed_tools:
  assumes "wellFormedChoice choice"
  shows "andThen (iterable (toolCallsField choice)) toolCalls =
           Inr (map expectedToolCall (toolCallsOfChoice choice))"
proof (cases "toolCallsField choice")
  case None
  then show ?thesis by (simp add: andThen_def toolCallsOfChoice_def)
next
  case (Some v)
  with assms show ?thesis
    by (cases v) (simp_all add: wellFormedChoice_def andThen_def toolCallsOfChoice_def toolCalls_notNull)
qed

lemma wellFormed_message:
  assumes "wellFormedChoice choice"
  shows "readMessage choice =
           Inr \<lparr> msg_role = RoleValue (fieldOf (messageOf choice) ''role''),
                 msg_content = fieldOf (messageOf choice) ''content'',
                 msg_name = fieldOf (messageOf choice) ''name'',
                 msg_toolCalls = toolCallsField choice \<rparr>"
proof -
  from assms have p: "present (fieldOf choice ''message'')"
    by (simp add: wellFormedChoice_def)
  then obtain c where c: "choice = JObj c"
    by (cases choice) (simp_all add: present_def fieldOf_def)
  from p c obtain m where m: "map_of c ''message'' = Some m" and nn: "m \<noteq> JNull"
    by (auto simp: present_def fieldOf_def)
  have mo: "messageOf choice = m"
    using c m by (simp add: messageOf_def fieldOf_def)
  have first: "readProp (Some choice) ''message'' = Inr (Some m)"
    using c m by simp
  show ?thesis
    unfolding readMessage_def toolCallsField_def mo first
    by (simp add: andThen_def readProp_notNull [OF nn] readMember_fieldOf nullish_present)
qed

lemma processChoice_wellFormed:
  assumes "wellFormedChoice choice"
    and "messageTextOf h choice = Inr messageText"
    and "\<forall>calls call. finishCallback calls call = None"
  shows "\<exists>completion.
           processChoice h response finishCallback td jsonResponse i choice calls =
             (calls @ [expectedCall messageText i choice], Inr completion)
           \<and> normalisedFrom td i choice completion"
proof -
  have msg: "readMessage choice =
           Inr \<lparr> msg_role = RoleValue (fieldOf (messageOf choice) ''role''),
                 msg_content = fieldOf (messageOf choice) ''content'',
                 msg_name = fieldOf (messageOf choice) ''name'',
                 msg_toolCalls = toolCallsField choice \<rparr>"
    using assms(1) by (rule wellFormed_message)
  have text_eq: "h_getTextPart h (fieldOf (messageOf choice) ''content'') = Inr messageText"
    using assms(2) by (simp add: messageTextOf_def)
  have fin: "readMember choice ''finish_reason'' = fieldOf choice ''finish_reason''"
    by (simp add: readMember_fieldOf)
  show ?thesis
    using assms(3)
    by (simp add: processChoice_def msg text_eq fin wellFormed_tools [OF assms(1)]
        expectedCall_def normalisedFrom_def Let_def)
qed

lemma choicesLoop_wellFormed:
  assumes "list_all wellFormedChoice choices"
    and "map (messageTextOf h) choices = map Inr texts"
    and "\<forall>calls call. finishCallback calls call = None"
  shows "\<exists>pushed.
           choicesLoop h response finishCallback td jsonResponse i choices calls completions =
             (calls @ map (\<lambda>k. expectedCall (texts ! k) (i + k) (choices ! k)) [0..<length choices],
              Inr (completions @ pushed))
           \<and> length pushed = length choices
           \<and> (\<forall>k < length choices. normalisedFrom td (i + k) (choices ! k) (pushed ! k))"
  using assms(1,2)
proof (induction choices arbitrary: i calls completions texts)
  case Nil
  then show ?case by simp
next
  case (Cons choice rest)
  from Cons.prems(2) obtain messageText texts' where
    texts: "texts = messageText # texts'"
    and text_eq: "messageTextOf h choice = Inr messageText"
    and texts_eq: "map (messageTextOf h) rest = map Inr texts'"
    by (cases texts) auto
  from Cons.prems(1) have wf: "wellFormedChoice choice" and wfs: "list_all wellFormedChoice rest"
    by simp_all
  obtain completion where
    step: "processChoice h response finishCallback td jsonResponse i choice calls =
             (calls @ [expectedCall messageText i choice], Inr completion)"
    and norm: "normalisedFrom td i choice completion"
    using processChoice_wellFormed [OF wf text_eq assms(3)] by blast
  obtain pushed where
    loop: "choicesLoop h response finishCallback td jsonResponse (Suc i) rest
             (calls @ [expectedCall messageText i choice]) (completions @ [completion]) =
             ((calls @ [expectedCall messageText i choice]) @
                map (\<lambda>k. expectedCall (texts' ! k) (Suc i + k) (rest ! k)) [0..<length rest],
              Inr ((completions @ [completion]) @ pushed))"
    and len: "length pushed = length rest"
    and norms: "\<forall>k < length rest. normalisedFrom td (Suc i + k) (rest ! k) (pushed ! k)"
    using Cons.IH [OF wfs texts_eq] by blast
  have calls_eq:
    "map (\<lambda>k. expectedCall (texts ! k) (i + k) ((choice # rest) ! k)) [0..<length (choice # rest)] =
       expectedCall messageText i choice #
         map (\<lambda>k. expectedCall (texts' ! k) (Suc i + k) (rest ! k)) [0..<length rest]"
    by (simp add: texts upt_conv_Cons map_Suc_upt [symmetric] del: upt_Suc)
  have norm_all:
    "\<forall>k < length (choice # rest).
       normalisedFrom td (i + k) ((choice # rest) ! k) ((completion # pushed) ! k)"
    using norm norms by (auto simp: nth_Cons split: nat.splits)
  show ?case
    using step loop len norm_all calls_eq
    by (intro exI [of _ "completion # pushed"]) (simp del: upt_Suc)
qed

lemma nonstreaming_wellFormed:
  assumes "resp_parsed response = Inr (JObj members)"
    and "map_of members ''choices'' = Some (JArr choices)"
    and "list_all wellFormedChoice choices"
    and "map (messageTextOf h) choices = map Inr texts"
    and "\<forall>calls call. finishCallback calls call = None"
  shows "\<exists>completions.
           processNonStreamingResponse h response finishCallback td =
             (map (\<lambda>i. expectedCall (texts ! i) i (choices ! i)) [0..<length choices],
              Inr completions)
           \<and> length completions = length choices
           \<and> (\<forall>i < length choices. normalisedFrom td i (choices ! i) (completions ! i))"
proof -
  have ch: "choicesOf (JObj members) = Inr choices"
    using assms(2) by (simp add: choicesOf_def)
  obtain pushed where
    loop: "choicesLoop h response finishCallback td (JObj members) 0 choices [] [] =
             ([] @ map (\<lambda>k. expectedCall (texts ! k) (0 + k) (choices ! k)) [0..<length choices],
              Inr ([] @ pushed))"
    and len: "length pushed = length choices"
    and norms: "\<forall>k < length choices. normalisedFrom td (0 + k) (choices ! k) (pushed ! k)"
    using choicesLoop_wellFormed [OF assms(3,4,5)] by blast
  have "processNonStreamingResponse h response finishCallback td =
          (map (\<lambda>i. expectedCall (texts ! i) i (choices ! i)) [0..<length choices], Inr pushed)"
    using assms(1) ch loop by (simp add: processNonStreamingResponse_def)
  with len norms show ?thesis by auto
qed

lemma two_choices_wellFormed: "list_all wellFormedChoice [hello_choice, tool_choice]"
  by (simp add: wellFormedChoice_def hello_choice_def tool_choice_def messageOf_def
      toolCallsField_def fieldOf_def present_def notNull_def)

lemma two_choices_texts:
  "map (messageTextOf (sample_host response finished)) [hello_choice, tool_choice] =
     map Inr [''hello'', []]"
  by (simp add: messageTextOf_def sample_host_def hello_choice_def tool_choice_def
      messageOf_def fieldOf_def)

lemma two_choices_parsed:
  "resp_parsed two_choices_response =
     Inr (JObj [(''id'', JStr ''c1''), (''model'', JStr ''m''),
                (''choices'', JArr [hello_choice, tool_choice])])"
  by (simp add: two_choices_response_def)

lemma two_choices_member:
  "map_of [(''id'', JStr ''c1''), (''model'', JStr ''m''),
           (''choices'', JArr [hello_choice, tool_choice])] ''choices'' =
     Some (JArr [hello_choice, tool_choice])"
  by simp

lemma two_choices_not_streamed:
  "\<not> (\<exists>v. resp_headers_get two_choices_response ''content-type'' = Some v
           \<and> sublist ''text/event-stream'' v)"
  by (simp add: two_choices_response_def json_headers_def str_includes_sublist [symmetric])

text \<open>
  C1. \<open>processResponseFromChatEndpoint\<close> takes the streaming branch exactly
  when the \<open>content-type\<close> header of the response contains
  \<open>text/event-stream\<close>: then its result is that of the stream processor with
  every finished completion converted, and otherwise it is the result of
  \<open>processNonStreamingResponse\<close>. Both branches yield \<open>ChatCompletion\<close>s.
  The streaming branch keeps the number and the order of the finished
  completions, and the \<open>i\<close>-th completion has the assistant role, as message
  content the chunks of \<open>solution.text\<close> joined with nothing between them,
  as \<open>choiceIndex\<close> the index of the finished completion, and
  \<open>blockFinished\<close> true exactly when \<open>finishOffset\<close> is defined. The other
  branch, on a body with an array of well-formed choices whose texts the
  host can read and with a callback that returns, yields one completion per
  choice in order, the \<open>i\<close>-th normalised from the \<open>i\<close>-th choice: its role,
  content and finish reason, \<open>choiceIndex\<close> \<open>i\<close>, not block-finished, no
  tokens, the telemetry data of the call.
\<close>

theorem sse_branch_and_normalisation:
  "((\<exists>v. resp_headers_get response ''content-type'' = Some v \<and> sublist ''text/event-stream'' v) \<longrightarrow>
      processResponseFromChatEndpoint h this response n cb td tok =
        (case h_processSSE h n response cb tok of
           (calls, Inl e) \<Rightarrow> (calls, Inl e)
         | (calls, Inr finished) \<Rightarrow> (calls, Inr (map (toChatCompletion td) finished))))
   \<and> (\<not> (\<exists>v. resp_headers_get response ''content-type'' = Some v \<and> sublist ''text/event-stream'' v) \<longrightarrow>
      processResponseFromChatEndpoint h this response n cb td tok =
        processNonStreamingResponse h response cb td)
   \<and> length (map (toChatCompletion td) finished) = length finished
   \<and> (\<forall>i < length finished.
        msg_content (cc_message (map (toChatCompletion td) finished ! i)) =
          Some (JStr (concat (sol_text (fc_solution (finished ! i)))))
        \<and> msg_role (cc_message (map (toChatCompletion td) finished ! i)) = Assistant
        \<and> cc_choiceIndex (map (toChatCompletion td) finished ! i) = fc_index (finished ! i)
        \<and> (cc_blockFinished (map (toChatCompletion td) finished ! i) \<longleftrightarrow>
             fc_finishOffset (finished ! i) \<noteq> None))
   \<and> (\<not> (\<exists>v. resp_headers_get response ''content-type'' = Some v \<and> sublist ''text/event-stream'' v)
        \<and> resp_parsed response = Inr (JObj members)
        \<and> map_of members ''choices'' = Some (JArr choices)
        \<and> list_all wellFormedChoice choices
        \<and> map (messageTextOf h) choices = map Inr texts
        \<and> (\<forall>calls call. cb calls call = None) \<longrightarrow>
      (\<exists>completions.
         snd (processResponseFromChatEndpoint h this response n cb td tok) = Inr completions
         \<and> length completions = length choices
         \<and> (\<forall>i < length choices. normalisedFrom td i (choices ! i) (completions ! i))))"
proof -
  let ?sse = "\<exists>v. resp_headers_get response ''content-type'' = Some v \<and> sublist ''text/event-stream'' v"
  have branch: "str_includes (contentTypeOf response) ''text/event-stream'' \<longleftrightarrow> ?sse"
    by (rule contentType_contains)
  have a: "?sse \<longrightarrow>
      processResponseFromChatEndpoint h this response n cb td tok =
        (case h_processSSE h n response cb tok of
           (calls, Inl e) \<Rightarrow> (calls, Inl e)
         | (calls, Inr finished) \<Rightarrow> (calls, Inr (map (toChatCompletion td) finished)))"
    unfolding branch [symmetric] by (simp add: processResponseFromChatEndpoint_def Let_def)
  have b: "\<not> ?sse \<longrightarrow>
      processResponseFromChatEndpoint h this response n cb td tok =
        processNonStreamingResponse h response cb td"
    unfolding branch [symmetric] by (simp add: processResponseFromChatEndpoint_def Let_def)
  have conv: "msg_content (cc_message (toChatCompletion td fc)) =
                Some (JStr (concat (sol_text (fc_solution fc))))
              \<and> msg_role (cc_message (toChatCompletion td fc)) = Assistant
              \<and> cc_choiceIndex (toChatCompletion td fc) = fc_index fc
              \<and> (cc_blockFinished (toChatCompletion td fc) \<longleftrightarrow> fc_finishOffset fc \<noteq> None)" for fc
    by (simp add: toChatCompletion_def Let_def)
  have c: "\<forall>i < length finished.
        msg_content (cc_message (map (toChatCompletion td) finished ! i)) =
          Some (JStr (concat (sol_text (fc_solution (finished ! i)))))
        \<and> msg_role (cc_message (map (toChatCompletion td) finished ! i)) = Assistant
        \<and> cc_choiceIndex (map (toChatCompletion td) finished ! i) = fc_index (finished ! i)
        \<and> (cc_blockFinished (map (toChatCompletion td) finished ! i) \<longleftrightarrow>
             fc_finishOffset (finished ! i) \<noteq> None)"
    using conv by (simp del: not_None_eq)
  have d: "\<not> ?sse
        \<and> resp_parsed response = Inr (JObj members)
        \<and> map_of members ''choices'' = Some (JArr choices)
        \<and> list_all wellFormedChoice choices
        \<and> map (messageTextOf h) choices = map Inr texts
        \<and> (\<forall>calls call. cb calls call = None) \<longrightarrow>
      (\<exists>completions.
         snd (processResponseFromChatEndpoint h this response n cb td tok) = Inr completions
         \<and> length completions = length choices
         \<and> (\<forall>i < length choices. normalisedFrom td i (choices ! i) (completions ! i)))"
  proof
    assume h: "\<not> ?sse
        \<and> resp_parsed response = Inr (JObj members)
        \<and> map_of members ''choices'' = Some (JArr choices)
        \<and> list_all wellFormedChoice choices
        \<and> map (messageTextOf h) choices = map Inr texts
        \<and> (\<forall>calls call. cb calls call = None)"
    then have eq: "processResponseFromChatEndpoint h this response n cb td tok =
                     processNonStreamingResponse h response cb td"
      using b by blast
    from h obtain completions where
      "processNonStreamingResponse h response cb td =
         (map (\<lambda>i. expectedCall (texts ! i) i (choices ! i)) [0..<length choices], Inr completions)"
      "length completions = length choices"
      "\<forall>i < length choices. normalisedFrom td i (choices ! i) (completions ! i)"
      using nonstreaming_wellFormed [of response members choices h texts cb td] by blast
    with eq show "\<exists>completions.
         snd (processResponseFromChatEndpoint h this response n cb td tok) = Inr completions
         \<and> length completions = length choices
         \<and> (\<forall>i < length choices. normalisedFrom td i (choices ! i) (completions ! i))"
      by auto
  qed
  from a b c d show ?thesis by (simp del: not_None_eq)
qed

theorem sse_branch_and_normalisation_witness:
  "(\<exists>v. resp_headers_get sse_response ''content-type'' = Some v \<and> sublist ''text/event-stream'' v)
   \<and> processResponseFromChatEndpoint (sample_host sse_response [sample_finished]) sample_endpoint
        sse_response 1 (\<lambda>calls call. None) sample_telemetry None =
       ([], Inr [toChatCompletion sample_telemetry sample_finished])
   \<and> msg_content (cc_message (toChatCompletion sample_telemetry sample_finished)) =
       Some (JStr ''Hello'')
   \<and> \<not> (\<exists>v. resp_headers_get two_choices_response ''content-type'' = Some v
             \<and> sublist ''text/event-stream'' v)
   \<and> list_all wellFormedChoice [hello_choice, tool_choice]
   \<and> (\<exists>completions.
         snd (processResponseFromChatEndpoint (sample_host two_choices_response []) sample_endpoint
                two_choices_response 1 (\<lambda>calls call. None) sample_telemetry None) = Inr completions
         \<and> length completions = 2
         \<and> cc_choiceIndex (completions ! 0) = 0
         \<and> msg_content (cc_message (completions ! 0)) = Some (JStr ''hello'')
         \<and> cc_finishReason (completions ! 0) = Some (JStr ''stop'')
         \<and> cc_choiceIndex (completions ! 1) = 1
         \<and> msg_content (cc_message (completions ! 1)) = Some JNull
         \<and> msg_role (cc_message (completions ! 1)) = RoleValue (Some (JStr ''assistant'')))"
proof -
  have 1: "\<exists>v. resp_headers_get sse_response ''content-type'' = Some v \<and> sublist ''text/event-stream'' v"
    by (simp add: sse_response_def sse_headers_def str_includes_sublist [symmetric])
  have 3: "msg_content (cc_message (toChatCompletion sample_telemetry sample_finished)) =
             Some (JStr ''Hello'')"
    using sse_branch_and_normalisation [of sse_response "sample_host sse_response [sample_finished]"
        sample_endpoint 1 "\<lambda>calls call. None" sample_telemetry None "[sample_finished]" "[]" "[]" "[]"]
    by (simp add: sample_finished_def)
  have 4: "processResponseFromChatEndpoint (sample_host sse_response [sample_finished]) sample_endpoint
        sse_response 1 (\<lambda>calls call. None) sample_telemetry None =
       ([], Inr [toChatCompletion sample_telemetry sample_finished])"
    using 1 sse_branch_and_normalisation [of sse_response "sample_host sse_response [sample_finished]"
        sample_endpoint 1 "\<lambda>calls call. None" sample_telemetry None "[sample_finished]" "[]" "[]" "[]"]
    by (simp add: sample_host_def)
  have n: "\<forall>calls call. (\<lambda>calls call. None :: error option) calls call = None"
    by simp
  obtain completions where
    r: "snd (processResponseFromChatEndpoint (sample_host two_choices_response []) sample_endpoint
                two_choices_response 1 (\<lambda>calls call. None) sample_telemetry None) = Inr completions"
    and l: "length completions = length [hello_choice, tool_choice]"
    and f: "\<forall>i < length [hello_choice, tool_choice].
              normalisedFrom sample_telemetry i ([hello_choice, tool_choice] ! i) (completions ! i)"
    using sse_branch_and_normalisation [of two_choices_response "sample_host two_choices_response []"
        sample_endpoint 1 "\<lambda>calls call. None" sample_telemetry None "[]"
        "[(''id'', JStr ''c1''), (''model'', JStr ''m''),
          (''choices'', JArr [hello_choice, tool_choice])]"
        "[hello_choice, tool_choice]" "[''hello'', []]"]
      two_choices_not_streamed two_choices_parsed two_choices_member two_choices_wellFormed
      two_choices_texts [of two_choices_response "[]"] n
    by blast
  have f0: "normalisedFrom sample_telemetry 0 hello_choice (completions ! 0)"
    using f [rule_format, of 0] by simp
  have f1: "normalisedFrom sample_telemetry 1 tool_choice (completions ! 1)"
    using f [rule_format, of 1] by simp
  have 5: "\<exists>completions.
         snd (processResponseFromChatEndpoint (sample_host two_choices_response []) sample_endpoint
                two_choices_response 1 (\<lambda>calls call. None) sample_telemetry None) = Inr completions
         \<and> length completions = 2
         \<and> cc_choiceIndex (completions ! 0) = 0
         \<and> msg_content (cc_message (completions ! 0)) = Some (JStr ''hello'')
         \<and> cc_finishReason (completions ! 0) = Some (JStr ''stop'')
         \<and> cc_choiceIndex (completions ! 1) = 1
         \<and> msg_content (cc_message (completions ! 1)) = Some JNull
         \<and> msg_role (cc_message (completions ! 1)) = RoleValue (Some (JStr ''assistant''))"
    using r l f0 f1
    by (intro exI [of _ completions])
       (simp add: normalisedFrom_def hello_choice_def tool_choice_def messageOf_def fieldOf_def)
  from 1 3 4 5 two_choices_not_streamed two_choices_wellFormed show ?thesis by blast
qed

text \<open>
  C4, as amended. For a response that is not streamed, whose body parses to
  an object with an array of \<open>n\<close> well-formed choices under \<open>choices\<close>, for a
  host whose \<open>getTextPart\<close> returns a text for the content of each message,
  and for a finish callback that returns normally,
  \<open>processNonStreamingResponse\<close> invokes the callback exactly \<open>n\<close> times, once
  per choice in the order of the indices \<open>0..n-1\<close>: the invocation for choice
  \<open>i\<close> passes the text of the choice's message, the index \<open>i\<close>, and a delta
  with that text and one \<open>copilotToolCalls\<close> entry per tool call of the
  choice, whose name, arguments and id are the tool call's function name,
  function arguments and id, each the empty string when it is missing. It
  resolves to \<open>n\<close> completions, the \<open>i\<close>-th with \<open>choiceIndex\<close> \<open>i\<close> and
  normalised from choice \<open>i\<close>.
\<close>

theorem nonstreaming_callback_per_choice:
  assumes "resp_parsed response = Inr (JObj members)"
    and "map_of members ''choices'' = Some (JArr choices)"
    and "list_all wellFormedChoice choices"
    and "map (messageTextOf h) choices = map Inr texts"
    and "\<forall>calls call. finishCallback calls call = None"
  shows "\<exists>completions.
           processNonStreamingResponse h response finishCallback td =
             (map (\<lambda>i. expectedCall (texts ! i) i (choices ! i)) [0..<length choices],
              Inr completions)
           \<and> length completions = length choices
           \<and> (\<forall>i < length choices.
                 cc_choiceIndex (completions ! i) = i
                 \<and> normalisedFrom td i (choices ! i) (completions ! i))"
proof -
  obtain completions where
    run: "processNonStreamingResponse h response finishCallback td =
            (map (\<lambda>i. expectedCall (texts ! i) i (choices ! i)) [0..<length choices],
             Inr completions)"
    and len: "length completions = length choices"
    and norms: "\<forall>i < length choices. normalisedFrom td i (choices ! i) (completions ! i)"
    using nonstreaming_wellFormed [OF assms] by blast
  from norms have "\<forall>i < length choices.
                 cc_choiceIndex (completions ! i) = i
                 \<and> normalisedFrom td i (choices ! i) (completions ! i)"
    by (simp add: normalisedFrom_def)
  with run len show ?thesis by blast
qed

theorem nonstreaming_callback_per_choice_witness:
  "resp_parsed two_choices_response =
     Inr (JObj [(''id'', JStr ''c1''), (''model'', JStr ''m''),
                (''choices'', JArr [hello_choice, tool_choice])])
   \<and> list_all wellFormedChoice [hello_choice, tool_choice]
   \<and> map (messageTextOf (sample_host two_choices_response [])) [hello_choice, tool_choice] =
       map Inr [''hello'', []]
   \<and> fst (processNonStreamingResponse (sample_host two_choices_response []) two_choices_response
             (\<lambda>calls call. None) sample_telemetry) =
       [(''hello'', 0, \<lparr> delta_text = ''hello'', delta_copilotToolCalls = [] \<rparr>),
        ([], 1, \<lparr> delta_text = [],
                  delta_copilotToolCalls =
                    [\<lparr> tc_name = JStr ''read'', tc_arguments = JStr ''{}'', tc_id = JStr [] \<rparr>] \<rparr>)]"
proof -
  have n: "\<forall>calls call. (\<lambda>calls call. None :: error option) calls call = None"
    by simp
  have e: "map (\<lambda>i. expectedCall ([''hello'', []] ! i) i ([hello_choice, tool_choice] ! i))
             [0..<length [hello_choice, tool_choice]] =
       [(''hello'', 0, \<lparr> delta_text = ''hello'', delta_copilotToolCalls = [] \<rparr>),
        ([], 1, \<lparr> delta_text = [],
                  delta_copilotToolCalls =
                    [\<lparr> tc_name = JStr ''read'', tc_arguments = JStr ''{}'', tc_id = JStr [] \<rparr>] \<rparr>)]"
    by (simp add: expectedCall_def hello_choice_def tool_choice_def messageOf_def
        toolCallsOfChoice_def toolCallsField_def fieldOf_def present_def expectedToolCall_def
        valueOrEmpty_def upt_conv_Cons)
  show ?thesis
    using two_choices_parsed two_choices_wellFormed two_choices_texts [of two_choices_response "[]"] e
      nonstreaming_callback_per_choice [OF two_choices_parsed two_choices_member
        two_choices_wellFormed two_choices_texts [of two_choices_response "[]"] n,
        of sample_telemetry]
    by auto
qed

text \<open>
  C4 as it was stated fails on a body with one choice that has no \<open>message\<close>:
  reading \<open>choice.message.role\<close> throws a TypeError and the callback is not
  invoked at all.
\<close>

theorem nonstreaming_choice_without_message:
  "choicesOf (JObj [(''choices'', JArr [text_choice])]) = Inr [text_choice]
   \<and> resp_parsed text_choice_response = Inr (JObj [(''choices'', JArr [text_choice])])
   \<and> processNonStreamingResponse (sample_host text_choice_response []) text_choice_response
        (\<lambda>calls call. None) sample_telemetry = ([], Inl TypeError)"
  by (simp add: choicesOf_def text_choice_response_def processNonStreamingResponse_def
      processChoice_def readMessage_def andThen_def text_choice_def)

text \<open>
  The other conditions of the amended C4 are needed as well. A callback that
  throws ends the loop at its first invocation; a \<open>null\<close> among the tool calls
  makes the read \<open>tool.function\<close> throw before the callback is invoked; and
  a content the host's \<open>getTextPart\<close> throws on ends the round before the
  callback is invoked, although the choice is well formed.
\<close>

lemma throwing_callback_stops_loop:
  "processNonStreamingResponse (sample_host two_choices_response []) two_choices_response
     throwing_callback sample_telemetry =
     ([(''hello'', 0, \<lparr> delta_text = ''hello'', delta_copilotToolCalls = [] \<rparr>)],
      Inl (Rejected ''callback failed''))"
  by (simp add: processNonStreamingResponse_def two_choices_response_def choicesOf_def
      processChoice_def readMessage_def andThen_def hello_choice_def throwing_callback_def
      sample_host_def Let_def)

lemma null_tool_call_throws:
  "processChoice (sample_host response finished) response finishCallback td jsonResponse i
     null_tool_choice calls = (calls, Inl TypeError)"
  by (simp add: processChoice_def readMessage_def andThen_def null_tool_choice_def
      sample_host_def Let_def)

lemma unreadable_content_throws:
  "wellFormedChoice null_content_choice
   \<and> processNonStreamingResponse (sample_host null_content_response []) null_content_response
        (\<lambda>calls call. None) sample_telemetry = ([], Inl TypeError)"
  by (simp add: wellFormedChoice_def null_content_choice_def messageOf_def toolCallsField_def
      fieldOf_def present_def processNonStreamingResponse_def null_content_response_def
      choicesOf_def processChoice_def readMessage_def andThen_def sample_host_def)

text \<open>
  An object under \<open>choices\<close> with the length 1 and no member \<open>0\<close>, as in
  \<^verbatim>\<open>{"choices":{"length":1}}\<close>: one round is run on \<open>undefined\<close>, and the read of
  its message throws. With the length 0 no round is run.
\<close>

lemma decimal_0: "decimal 0 = ''0''"
  by (simp add: decimal.simps digit_def)

lemma object_choices_with_length:
  "processNonStreamingResponse h
     (response \<lparr> resp_parsed := Inr (JObj [(''choices'', JObj [(''length'', JNum 1)])]) \<rparr>)
     finishCallback td = ([], Inl TypeError)
   \<and> processNonStreamingResponse h
       (response \<lparr> resp_parsed := Inr (JObj [(''choices'', JObj [(''length'', JNum 0)])]) \<rparr>)
       finishCallback td = ([], Inr [])"
  by (simp add: processNonStreamingResponse_def choicesOf_def indexedMembers_def decimal_0
      processChoice_def readMessage_def andThen_def)

subsection \<open>Making a request\<close>

lemma interceptBody_Some: "\<exists>b. interceptBody this (Some body) = Some b"
  by (simp add: Let_def)

lemma makeChatRequest2_requests:
  "interceptBody this (Some (createRequestBody this (requestBodyOptions options))) = Some body \<Longrightarrow>
   out_requests (makeChatRequest2 h this options token) =
     [(urlOrRequestMetadata this,
       \<lparr> fo_method = ''POST'', fo_headers = getExtraHeaders this,
         fo_body = h_JSON_stringify h body \<rparr>)]"
  unfolding makeChatRequest2_def Let_def
  by (simp split: sum.split prod.split)

lemma makeChatRequest2_this: "out_this (makeChatRequest2 h this options token) = this"
  unfolding makeChatRequest2_def Let_def
  by (simp split: sum.split prod.split)

text \<open>
  C3. Every call of \<open>makeChatRequest2\<close> sends exactly one request through the
  fetcher, whatever the fetcher answers: a POST to the server URL of the
  endpoint followed by \<open>/v1/chat/completions\<close>, with the JSON content type,
  whose body is \<open>JSON.stringify\<close> of the body that \<open>createRequestBody\<close> builds
  and \<open>interceptBody\<close> filters. A \<open>LocalEndpointProvider\<close> configured with the
  empty URL takes \<open>http://127.0.0.1:8777\<close> in its place, keeps any other URL,
  and creates its endpoint with the URL it holds.
\<close>

theorem chat_request_single_post:
  "(\<exists>body. interceptBody this (Some (createRequestBody this (requestBodyOptions options))) = Some body
      \<and> out_requests (makeChatRequest2 h this options token) =
          [(ep_serverUrl this @ ''/v1/chat/completions'',
            \<lparr> fo_method = ''POST'',
              fo_headers = [(''Content-Type'', ''application/json'')],
              fo_body = h_JSON_stringify h body \<rparr>)])
   \<and> lep_serverUrl (new_LocalEndpointProvider []) = ''http://127.0.0.1:8777''
   \<and> lep_serverUrl (new_LocalEndpointProvider (c # serverUrl)) = c # serverUrl
   \<and> (case getOrCreateLocalEndpoint (objects, new_LocalEndpointProvider serverUrl') of
         (endpoint, objects', this') \<Rightarrow>
           ep_serverUrl (objects' ! endpoint) = lep_serverUrl (new_LocalEndpointProvider serverUrl'))"
proof -
  obtain body where
    b: "interceptBody this (Some (createRequestBody this (requestBodyOptions options))) = Some body"
    using interceptBody_Some by blast
  have "out_requests (makeChatRequest2 h this options token) =
          [(ep_serverUrl this @ ''/v1/chat/completions'',
            \<lparr> fo_method = ''POST'',
              fo_headers = [(''Content-Type'', ''application/json'')],
              fo_body = h_JSON_stringify h body \<rparr>)]"
    using makeChatRequest2_requests [OF b] by (simp add: urlOrRequestMetadata_def getExtraHeaders_def)
  with b have 1: "\<exists>body. interceptBody this (Some (createRequestBody this (requestBodyOptions options))) = Some body
      \<and> out_requests (makeChatRequest2 h this options token) =
          [(ep_serverUrl this @ ''/v1/chat/completions'',
            \<lparr> fo_method = ''POST'',
              fo_headers = [(''Content-Type'', ''application/json'')],
              fo_body = h_JSON_stringify h body \<rparr>)]"
    by blast
  have 2: "lep_serverUrl (new_LocalEndpointProvider []) = ''http://127.0.0.1:8777''"
    by (simp add: new_LocalEndpointProvider_def)
  have 3: "lep_serverUrl (new_LocalEndpointProvider (c # serverUrl)) = c # serverUrl"
    by (simp add: new_LocalEndpointProvider_def)
  have 4: "case getOrCreateLocalEndpoint (objects, new_LocalEndpointProvider serverUrl') of
         (endpoint, objects', this') \<Rightarrow>
           ep_serverUrl (objects' ! endpoint) = lep_serverUrl (new_LocalEndpointProvider serverUrl')"
    by (simp add: getOrCreateLocalEndpoint_def new_LocalEndpointProvider_def Let_def
        new_LocalLlmEndpoint_def)
  from 1 2 3 4 show ?thesis by blast
qed

text \<open>
  A completion that came out of a round of the loop has a content the host's
  \<open>getTextPart\<close> has returned on, and the closing loop of \<open>makeChatRequest2\<close>
  reads the same content again.
\<close>

lemma processChoice_readable:
  assumes "processChoice h response finishCallback td jsonResponse i choice calls =
             (calls', Inr completion)"
  shows "\<exists>t. h_getTextPart h (msg_content (cc_message completion)) = Inr t"
  using assms
  by (auto simp: processChoice_def Let_def split: sum.splits option.splits)

lemma choicesLoop_readable:
  assumes "choicesLoop h response finishCallback td jsonResponse i choices calls completions =
             (calls', Inr result)"
    and "\<forall>c \<in> set completions. \<exists>t. h_getTextPart h (msg_content (cc_message c)) = Inr t"
  shows "\<forall>c \<in> set result. \<exists>t. h_getTextPart h (msg_content (cc_message c)) = Inr t"
  using assms
proof (induction choices arbitrary: i calls completions)
  case Nil
  then show ?case by simp
next
  case (Cons choice rest)
  obtain calls1 r where
    step: "processChoice h response finishCallback td jsonResponse i choice calls = (calls1, r)"
    by (cases "processChoice h response finishCallback td jsonResponse i choice calls")
  show ?case
  proof (cases r)
    case (Inl e)
    with step Cons.prems(1) show ?thesis by simp
  next
    case (Inr completion)
    then have "\<exists>t. h_getTextPart h (msg_content (cc_message completion)) = Inr t"
      using step processChoice_readable by blast
    with Cons.prems(2) have
      "\<forall>c \<in> set (completions @ [completion]).
         \<exists>t. h_getTextPart h (msg_content (cc_message c)) = Inr t"
      by auto
    moreover have "choicesLoop h response finishCallback td jsonResponse (Suc i) rest calls1
                     (completions @ [completion]) = (calls', Inr result)"
      using step Inr Cons.prems(1) by simp
    ultimately show ?thesis by (rule Cons.IH [rotated])
  qed
qed

lemma processed_readable:
  assumes "\<forall>s. \<exists>t. h_getTextPart h (Some (JStr s)) = Inr t"
    and "snd (processResponseFromChatEndpoint h this response n cb td tok) = Inr completions"
  shows "\<forall>c \<in> set completions. \<exists>t. h_getTextPart h (msg_content (cc_message c)) = Inr t"
proof (cases "str_includes (contentTypeOf response) ''text/event-stream''")
  case True
  with assms(2) obtain finished where "completions = map (toChatCompletion td) finished"
    by (auto simp: processResponseFromChatEndpoint_def Let_def split: prod.splits sum.splits)
  then show ?thesis
    using assms(1) by (simp add: toChatCompletion_def Let_def)
next
  case False
  with assms(2) have p: "snd (processNonStreamingResponse h response cb td) = Inr completions"
    by (simp add: processResponseFromChatEndpoint_def Let_def)
  then obtain jsonResponse choices calls' where
    "choicesLoop h response cb td jsonResponse 0 choices [] [] = (calls', Inr completions)"
    by (auto simp: processNonStreamingResponse_def split: sum.splits)
       (metis prod.collapse)
  then show ?thesis
    using choicesLoop_readable by fastforce
qed

lemma extractLoop_readable:
  "\<forall>c \<in> set completions. \<exists>t. h_getTextPart h (msg_content (cc_message c)) = Inr t \<Longrightarrow>
   \<exists>v. extractLoop h completions vars = Inr v"
  by (induction completions arbitrary: vars) auto

text \<open>
  C2, as amended. Let the fetcher answer the request of a call of
  \<open>makeChatRequest2\<close> with a response. If the response is not ok, the call
  throws the error \<open>Local LLM request failed: <status> <statusText>\<close> and the
  finish callback has not been invoked: nothing of the body has been
  processed. If the response is ok, the call adds no error of its own: it
  throws exactly the error, if any, that processing the response throws
  (\<open>JSON.parse\<close> of the body, the read of a choice or of its text, the stream
  processor, the finish callback), which it does not handle. That error
  comes out of \<open>processResponseFromChatEndpoint\<close>, or out of \<open>getTextPart\<close>
  in the closing loop over the completions; with a host whose \<open>getTextPart\<close>
  returns on every string the closing loop does not throw, and the error is
  exactly that of \<open>processResponseFromChatEndpoint\<close>.
\<close>

theorem chat_request_failure_handling:
  assumes "out_requests (makeChatRequest2 h this options token) = [(url, init)]"
    and "h_fetch h url init = Inr response"
  shows "(\<not> resp_ok response \<longrightarrow>
            out_result (makeChatRequest2 h this options token) =
              Inl (Error (''Local LLM request failed: '' @ decimal (resp_status response)
                           @ '' '' @ resp_statusText response))
            \<and> out_callbacks (makeChatRequest2 h this options token) = [])
         \<and> (resp_ok response \<longrightarrow>
              (\<forall>e. out_result (makeChatRequest2 h this options token) = Inl e \<longleftrightarrow>
                    snd (processResponseFromChatEndpoint h this response 1
                           (finishedCbOrNoop options) (h_createAndMarkAsIssued h) (Some token)) = Inl e
                    \<or> (\<exists>completions.
                          snd (processResponseFromChatEndpoint h this response 1
                                 (finishedCbOrNoop options) (h_createAndMarkAsIssued h) (Some token)) =
                            Inr completions
                          \<and> extractLast h completions = Inl e)))
         \<and> (resp_ok response \<and> (\<forall>s. \<exists>t. h_getTextPart h (Some (JStr s)) = Inr t) \<longrightarrow>
              (\<forall>e. out_result (makeChatRequest2 h this options token) = Inl e \<longleftrightarrow>
                    snd (processResponseFromChatEndpoint h this response 1
                           (finishedCbOrNoop options) (h_createAndMarkAsIssued h) (Some token)) = Inl e))"
proof -
  let ?P = "processResponseFromChatEndpoint h this response 1
              (finishedCbOrNoop options) (h_createAndMarkAsIssued h) (Some token)"
  obtain body where
    b: "interceptBody this (Some (createRequestBody this (requestBodyOptions options))) = Some body"
    using interceptBody_Some by blast
  have sent: "url = urlOrRequestMetadata this"
    "init = \<lparr> fo_method = ''POST'', fo_headers = getExtraHeaders this,
              fo_body = h_JSON_stringify h body \<rparr>"
    using makeChatRequest2_requests [OF b, of h token] assms(1) by simp_all
  have fetched: "h_fetch h (urlOrRequestMetadata this)
                   \<lparr> fo_method = ''POST'', fo_headers = getExtraHeaders this,
                     fo_body = h_JSON_stringify h body \<rparr> = Inr response"
    using assms(2) sent by simp
  have notok: "\<not> resp_ok response \<longrightarrow>
            out_result (makeChatRequest2 h this options token) =
              Inl (Error (''Local LLM request failed: '' @ decimal (resp_status response)
                           @ '' '' @ resp_statusText response))
            \<and> out_callbacks (makeChatRequest2 h this options token) = []"
    unfolding makeChatRequest2_def Let_def b using fetched by simp
  have ok: "resp_ok response \<longrightarrow>
              (\<forall>e. out_result (makeChatRequest2 h this options token) = Inl e \<longleftrightarrow>
                    snd ?P = Inl e
                    \<or> (\<exists>completions. snd ?P = Inr completions \<and> extractLast h completions = Inl e))"
    unfolding makeChatRequest2_def Let_def b using fetched
    by (auto split: prod.splits sum.splits)
  have strings: "resp_ok response \<and> (\<forall>s. \<exists>t. h_getTextPart h (Some (JStr s)) = Inr t) \<longrightarrow>
              (\<forall>e. out_result (makeChatRequest2 h this options token) = Inl e \<longleftrightarrow> snd ?P = Inl e)"
  proof (intro impI allI)
    fix e
    assume a: "resp_ok response \<and> (\<forall>s. \<exists>t. h_getTextPart h (Some (JStr s)) = Inr t)"
    have "extractLast h completions \<noteq> Inl e" if "snd ?P = Inr completions" for completions
    proof -
      have "\<forall>c \<in> set completions. \<exists>t. h_getTextPart h (msg_content (cc_message c)) = Inr t"
        using a that processed_readable by blast
      then obtain v where "extractLoop h completions ([], [], None) = Inr v"
        using extractLoop_readable by blast
      then show ?thesis by (simp add: extractLast_def)
    qed
    with a ok show "out_result (makeChatRequest2 h this options token) = Inl e \<longleftrightarrow> snd ?P = Inl e"
      by blast
  qed
  from notok ok strings show ?thesis by blast
qed

lemma sample_request:
  "out_requests (makeChatRequest2 (sample_host response finished) sample_endpoint
                   sample_options sample_token) =
     [(''http://127.0.0.1:8777/v1/chat/completions'',
       \<lparr> fo_method = ''POST'', fo_headers = [(''Content-Type'', ''application/json'')],
         fo_body = ''{}'' \<rparr>)]"
  using makeChatRequest2_requests [of sample_endpoint sample_options _
      "sample_host response finished" sample_token]
    interceptBody_Some [of sample_endpoint
      "createRequestBody sample_endpoint (requestBodyOptions sample_options)"]
  by (auto simp: urlOrRequestMetadata_def getExtraHeaders_def sample_endpoint_def
      new_LocalLlmEndpoint_def sample_host_def)

lemma sample_host_strings:
  "\<forall>s. \<exists>t. h_getTextPart (sample_host response finished) (Some (JStr s)) = Inr t"
  by (simp add: sample_host_def)

lemma two_choices_processed:
  "\<exists>completions.
     snd (processResponseFromChatEndpoint (sample_host two_choices_response []) sample_endpoint
            two_choices_response 1 (finishedCbOrNoop sample_options)
            (h_createAndMarkAsIssued (sample_host two_choices_response [])) (Some sample_token)) =
       Inr completions"
proof -
  have nosse: "\<not> str_includes (contentTypeOf two_choices_response) ''text/event-stream''"
    by (simp add: contentTypeOf_def two_choices_response_def json_headers_def)
  have n: "\<forall>calls call. finishedCbOrNoop sample_options calls call = None"
    by (simp add: finishedCbOrNoop_def sample_options_def)
  show ?thesis
    using nonstreaming_wellFormed [OF two_choices_parsed two_choices_member two_choices_wellFormed
        two_choices_texts [of two_choices_response "[]"] n,
        of "h_createAndMarkAsIssued (sample_host two_choices_response [])"]
      nosse
    by (auto simp: processResponseFromChatEndpoint_def Let_def)
qed

theorem chat_request_failure_handling_witness:
  "h_fetch (sample_host not_found_response []) ''http://127.0.0.1:8777/v1/chat/completions''
       \<lparr> fo_method = ''POST'', fo_headers = [(''Content-Type'', ''application/json'')],
         fo_body = ''{}'' \<rparr> = Inr not_found_response
   \<and> \<not> resp_ok not_found_response
   \<and> out_result (makeChatRequest2 (sample_host not_found_response []) sample_endpoint
                    sample_options sample_token) =
       Inl (Error ''Local LLM request failed: 404 Not Found'')
   \<and> out_callbacks (makeChatRequest2 (sample_host not_found_response []) sample_endpoint
                    sample_options sample_token) = []
   \<and> h_fetch (sample_host two_choices_response []) ''http://127.0.0.1:8777/v1/chat/completions''
       \<lparr> fo_method = ''POST'', fo_headers = [(''Content-Type'', ''application/json'')],
         fo_body = ''{}'' \<rparr> = Inr two_choices_response
   \<and> resp_ok two_choices_response
   \<and> (\<forall>s. \<exists>t. h_getTextPart (sample_host two_choices_response []) (Some (JStr s)) = Inr t)
   \<and> (\<forall>e. out_result (makeChatRequest2 (sample_host two_choices_response []) sample_endpoint
                    sample_options sample_token) \<noteq> Inl e)"
proof -
  let ?init = "\<lparr> fo_method = ''POST'', fo_headers = [(''Content-Type'', ''application/json'')],
                  fo_body = ''{}'' \<rparr>"
  have f: "h_fetch (sample_host response []) ''http://127.0.0.1:8777/v1/chat/completions'' ?init =
             Inr response" for response
    by (simp add: sample_host_def)
  have d: "decimal 404 = ''404''"
    by code_simp
  have k: "\<not> resp_ok not_found_response" "resp_ok two_choices_response"
    by (simp_all add: not_found_response_def two_choices_response_def)
  have bad: "out_result (makeChatRequest2 (sample_host not_found_response []) sample_endpoint
                    sample_options sample_token) =
       Inl (Error ''Local LLM request failed: 404 Not Found'')
   \<and> out_callbacks (makeChatRequest2 (sample_host not_found_response []) sample_endpoint
                    sample_options sample_token) = []"
    using k d chat_request_failure_handling [OF sample_request [of not_found_response "[]"]
        f [of not_found_response]]
    by (simp add: not_found_response_def)
  have good: "\<forall>e. out_result (makeChatRequest2 (sample_host two_choices_response []) sample_endpoint
                    sample_options sample_token) \<noteq> Inl e"
    using k two_choices_processed sample_host_strings [of two_choices_response "[]"]
      chat_request_failure_handling [OF sample_request [of two_choices_response "[]"]
        f [of two_choices_response]]
    by auto
  from f k bad good sample_host_strings [of two_choices_response "[]"] show ?thesis by blast
qed

text \<open>
  C2 as it was stated fails on a response with status 200 whose body is not
  JSON: the response is ok and the call throws the SyntaxError of
  \<open>JSON.parse\<close>.
\<close>

theorem chat_request_ok_not_json:
  "resp_ok not_json_response
   \<and> h_fetch (sample_host not_json_response []) ''http://127.0.0.1:8777/v1/chat/completions''
       \<lparr> fo_method = ''POST'', fo_headers = [(''Content-Type'', ''application/json'')],
         fo_body = ''{}'' \<rparr> = Inr not_json_response
   \<and> out_result (makeChatRequest2 (sample_host not_json_response []) sample_endpoint
                    sample_options sample_token) = Inl SyntaxError"
  by (simp add: makeChatRequest2_def Let_def sample_host_def not_json_response_def
      processResponseFromChatEndpoint_def contentTypeOf_def json_headers_def
      processNonStreamingResponse_def)

text \<open>
  C8. A call of \<open>makeChatRequest2\<close> or of \<open>makeChatRequest\<close> leaves the endpoint
  as it was, field by field, whatever the host does and whether the call
  returns or throws. What a later call does is therefore what it would have
  done had the earlier call not been made: the completions of a call are
  gathered in a list that starts empty in that call, and nothing is kept in
  the endpoint.
\<close>

theorem chat_request_frame:
  "out_this (makeChatRequest2 h this options token) = this
   \<and> out_this (makeChatRequest h this debugName messages finishedCb token location source
        requestOptions userInitiatedRequest telemetryProperties) = this
   \<and> makeChatRequest2 h' (out_this (makeChatRequest2 h this options token)) options' token' =
       makeChatRequest2 h' this options' token'
   \<and> makeChatRequest2 h' (out_this (makeChatRequest h this debugName messages finishedCb token
        location source requestOptions userInitiatedRequest telemetryProperties)) options' token' =
       makeChatRequest2 h' this options' token'"
  by (simp add: makeChatRequest2_this makeChatRequest_def)

subsection \<open>The endpoint provider\<close>

lemma getOrCreate_cached:
  "lep_chatEndpoint this = Some endpoint \<Longrightarrow>
   getOrCreateLocalEndpoint (objects, this) = (endpoint, objects, this)"
  by (simp add: getOrCreateLocalEndpoint_def)

lemma provider_step_cached:
  "lep_chatEndpoint this = Some endpoint \<Longrightarrow>
   provider_step (objects, this) c = (sameEndpoint endpoint c, objects, this)"
  by (cases c)
     (simp_all add: getChatEndpoint_def getAllChatEndpoints_def getOrCreate_cached sameEndpoint_def)

lemma provider_run_cached:
  "lep_chatEndpoint this = Some endpoint \<Longrightarrow>
   provider_run (objects, this) cs = (map (sameEndpoint endpoint) cs, objects, this)"
  by (induction cs) (simp_all add: provider_step_cached)

lemma provider_step_first:
  "lep_chatEndpoint this = None \<Longrightarrow>
   provider_step (objects, this) c =
     (sameEndpoint (length objects) c,
      objects @ [new_LocalLlmEndpoint createLocalModelMetadata (lep_serverUrl this)],
      this \<lparr> lep_chatEndpoint := Some (length objects) \<rparr>)"
  by (cases c)
     (simp_all add: getChatEndpoint_def getAllChatEndpoints_def getOrCreateLocalEndpoint_def
        sameEndpoint_def Let_def)

text \<open>
  C9. On a provider that has not created its endpoint yet, the first call of
  \<open>getChatEndpoint\<close> or \<open>getAllChatEndpoints\<close> creates one endpoint object (from
  the local model metadata and the provider's server URL) and caches it, and
  every later call of either method, in any number and order, returns that
  same object and creates nothing: the store and the provider stay as the
  first call left them. In every state \<open>getAllChatEndpoints\<close> returns the
  one-element list of the object \<open>getOrCreateLocalEndpoint\<close> returns, and
  \<open>getChatEndpoint\<close> returns that object.
\<close>

theorem provider_caches_endpoint:
  assumes "lep_chatEndpoint this = None"
  shows "provider_run (objects, this) (c # cs) =
           (map (sameEndpoint (length objects)) (c # cs),
            objects @ [new_LocalLlmEndpoint createLocalModelMetadata (lep_serverUrl this)],
            this \<lparr> lep_chatEndpoint := Some (length objects) \<rparr>)
         \<and> fst (getAllChatEndpoints s) = Inr [fst (getOrCreateLocalEndpoint s)]
         \<and> fst (getChatEndpoint s request) = Inr (fst (getOrCreateLocalEndpoint s))"
proof -
  let ?this' = "this \<lparr> lep_chatEndpoint := Some (length objects) \<rparr>"
  let ?objects' = "objects @ [new_LocalLlmEndpoint createLocalModelMetadata (lep_serverUrl this)]"
  have first: "provider_step (objects, this) c = (sameEndpoint (length objects) c, ?objects', ?this')"
    using assms by (rule provider_step_first)
  have cached: "lep_chatEndpoint ?this' = Some (length objects)"
    by simp
  have rest: "provider_run (?objects', ?this') cs =
                (map (sameEndpoint (length objects)) cs, ?objects', ?this')"
    using cached by (rule provider_run_cached)
  have run: "provider_run (objects, this) (c # cs) =
               (map (sameEndpoint (length objects)) (c # cs), ?objects', ?this')"
    using first rest by simp
  have all: "fst (getAllChatEndpoints s) = Inr [fst (getOrCreateLocalEndpoint s)]"
    by (simp add: getAllChatEndpoints_def split: prod.split)
  have one: "fst (getChatEndpoint s request) = Inr (fst (getOrCreateLocalEndpoint s))"
    by (simp add: getChatEndpoint_def split: prod.split)
  from run all one show ?thesis by blast
qed

theorem provider_caches_endpoint_witness:
  "lep_chatEndpoint (new_LocalEndpointProvider []) = None
   \<and> provider_run ([], new_LocalEndpointProvider [])
        [GetChatEndpoint, GetAllChatEndpoints, GetChatEndpoint] =
       ([Endpoint (Inr 0), Endpoints (Inr [0]), Endpoint (Inr 0)],
        [sample_endpoint],
        new_LocalEndpointProvider [] \<lparr> lep_chatEndpoint := Some 0 \<rparr>)"
proof -
  have h: "lep_chatEndpoint (new_LocalEndpointProvider []) = None"
    by (simp add: new_LocalEndpointProvider_def)
  show ?thesis
    using h provider_caches_endpoint [OF h, THEN conjunct1, of "[]" GetChatEndpoint
        "[GetAllChatEndpoints, GetChatEndpoint]"]
    by (simp add: sameEndpoint_def sample_endpoint_def new_LocalEndpointProvider_def)
qed

end
